theory Spec2Isabelle
  imports Complex_Main
begin

section \<open>The chess client: values shared by both script variants\<close>

text \<open>
  The repository holds two variants of the browser client: \<^verbatim>\<open>src/script.js\<close> (with
  board orientation, a test of the clicked piece and move proposals that leave the local
  game untouched) and \<^verbatim>\<open>src/frontend/script.js\<close> (without them). Definitions
  taken from the first keep the source's names; those of the second carry the suffix
  \<open>_fe\<close>.

  The rules engine (chess.js) is not part of the repository. A \<open>Chess\<close> instance is
  modelled by what the client reads from it: \<open>game.board()\<close>, \<open>game.turn()\<close>,
  \<open>game.fen()\<close> and \<open>game.history({verbose: true})\<close>. The engine's move generator
  \<open>game.moves({square, verbose: true})\<close> and its \<open>game.move\<close> are parameters of the
  handlers.
\<close>

datatype js_error = TypeError | SyntaxError

datatype color = White | Black

datatype ptype = Pawn | Knight | Bishop | Rook | Queen | King

record piece =
  pcolor :: color
  ptype :: ptype

type_synonym boardState = "piece option list list"

record vmove =
  mfrom :: string
  mto :: string
  mpromotion :: "string option"

record chess =
  board :: boardState
  turn :: color
  fen :: string
  history :: "vmove list"

record player_move =
  pm_username :: string
  pm_room_id :: string
  pm_fen :: string
  pm_move_uci :: string

text \<open>
  What a handler shows or sends: a transient notice, a \<open>player_move\<close> message, a
  \<open>join_room\<close> message (username, room).
\<close>

datatype effect = ShowError string | Emit player_move | EmitJoin string string

record client =
  game :: "chess option"
  currentUsername :: string
  currentRoomId :: string
  selectedSquare :: "string option"
  whiteName :: string
  blackName :: string

subsection \<open>Strings and numbers of the host language\<close>

text \<open>\<open>String.prototype.toLowerCase\<close> on the ASCII letters; other characters are kept.\<close>

definition lower_char :: "char \<Rightarrow> char" where
  "lower_char ch =
     (if (65::nat) \<le> of_char ch \<and> of_char ch \<le> (90::nat)
      then char_of (of_char ch + (32::nat)) else ch)"

definition toLowerCase :: "string \<Rightarrow> string" where
  "toLowerCase s = map lower_char s"

text \<open>\<open>s.charCodeAt(0)\<close>; \<open>None\<close> is NaN (the empty string).\<close>

definition charCodeAt0 :: "string \<Rightarrow> int option" where
  "charCodeAt0 s = (case s of [] \<Rightarrow> None | ch # _ \<Rightarrow> Some (int (of_char ch)))"

text \<open>
  \<open>parseInt(s[1])\<close>: \<open>s[1]\<close> is one character or \<open>undefined\<close>, so the result is
  that digit's value, and NaN (\<open>None\<close>) for anything else.
\<close>

definition parseInt1 :: "string \<Rightarrow> int option" where
  "parseInt1 s =
     (case s of
        _ # d # _ \<Rightarrow>
          (if (48::nat) \<le> of_char d \<and> of_char d \<le> (57::nat)
           then Some (int (of_char d) - 48) else None)
      | _ \<Rightarrow> None)"

text \<open>
  \<open>boardState[r][f]\<close> for indices that may be NaN or out of range: a missing row is
  \<open>undefined\<close>, and indexing it throws; a missing column is \<open>undefined\<close>, which is
  falsy like the \<open>null\<close> of an empty square.
\<close>

definition lookup2 :: "boardState \<Rightarrow> int option \<Rightarrow> int option \<Rightarrow> js_error + piece option" where
  "lookup2 b r f =
     (case r of
        None \<Rightarrow> Inl TypeError
      | Some i \<Rightarrow>
          if 0 \<le> i \<and> i < int (length b) then
            (case f of
               None \<Rightarrow> Inr None
             | Some j \<Rightarrow>
                 if 0 \<le> j \<and> j < int (length (b ! nat i)) then Inr ((b ! nat i) ! nat j)
                 else Inr None)
          else Inl TypeError)"

text \<open>\<open>Array.prototype.indexOf\<close>: the first index, or \<open>-1\<close>.\<close>

fun indexOf :: "string list \<Rightarrow> string \<Rightarrow> int" where
  "indexOf [] x = - 1"
| "indexOf (y # ys) x =
     (if y = x then 0 else (let i = indexOf ys x in if i < 0 then - 1 else i + 1))"

text \<open>The decimal digits of a number, as string concatenation writes it.\<close>

fun string_of_nat :: "nat \<Rightarrow> string" where
  "string_of_nat n =
     (if n < 10 then [char_of (48 + n)]
      else string_of_nat (n div 10) @ [char_of (48 + n mod 10)])"

declare string_of_nat.simps [simp del]


section \<open>Board renderer\<close>

record cell =
  c_square :: string
  c_light :: bool
  c_piece :: "piece option"

text \<open>A loop that throws stops at the first error.\<close>

fun collect :: "(js_error + 'a) list \<Rightarrow> js_error + 'a list" where
  "collect [] = Inr []"
| "collect (x # xs) =
     (case x of
        Inl e \<Rightarrow> Inl e
      | Inr v \<Rightarrow> (case collect xs of Inl e \<Rightarrow> Inl e | Inr vs \<Rightarrow> Inr (v # vs)))"

definition players_of :: "client \<Rightarrow> string list" where
  "players_of c = filter (\<lambda>p. p \<noteq> ''-'') [whiteName c, blackName c]"

text \<open>\<^verbatim>\<open>src/script.js\<close>, \<open>isPlayerBlack\<close>.\<close>

definition isPlayerBlack :: "client \<Rightarrow> bool" where
  "isPlayerBlack c =
     (let players = players_of c in
      if length players < 2 then False
      else (let playerIndex = indexOf players (currentUsername c) in playerIndex = 1))"

definition rankIndices :: "bool \<Rightarrow> nat list" where
  "rankIndices isBlack = (if isBlack then [7, 6, 5, 4, 3, 2, 1, 0] else [0, 1, 2, 3, 4, 5, 6, 7])"

definition fileIndices :: "bool \<Rightarrow> nat list" where
  "fileIndices isBlack = (if isBlack then [7, 6, 5, 4, 3, 2, 1, 0] else [0, 1, 2, 3, 4, 5, 6, 7])"

text \<open>
  The body of the inner loop of \<open>renderBoard\<close> in \<^verbatim>\<open>src/script.js\<close>: the class, the
  \<open>data-square\<close> label and the piece of one cell. The glyph shown is a function of the
  piece, so the cell keeps the piece.
\<close>

definition render_cell :: "boardState \<Rightarrow> nat \<Rightarrow> nat \<Rightarrow> js_error + cell" where
  "render_cell b rankIdx fileIdx =
     (let isLight = ((rankIdx + fileIdx) mod 2 = 0);
          rankLabel = 8 - rankIdx;
          fileLabel = [char_of (97 + fileIdx)]
      in case lookup2 b (Some (int rankIdx)) (Some (int fileIdx)) of
           Inl e \<Rightarrow> Inl e
         | Inr p \<Rightarrow>
             Inr \<lparr>c_square = fileLabel @ string_of_nat rankLabel, c_light = isLight, c_piece = p\<rparr>)"

definition render_grid :: "boardState \<Rightarrow> bool \<Rightarrow> js_error + cell list" where
  "render_grid b isBlack =
     collect (concat (map (\<lambda>rankIdx. map (\<lambda>fileIdx. render_cell b rankIdx fileIdx)
                                          (fileIndices isBlack))
                          (rankIndices isBlack)))"

text \<open>
  \<open>renderBoard\<close> of \<^verbatim>\<open>src/script.js\<close>: the cells in the order they are appended to the
  board element. \<open>game.board()\<close> on a null game throws.
\<close>

definition renderBoard :: "client \<Rightarrow> js_error + cell list" where
  "renderBoard c =
     (case game c of
        None \<Rightarrow> Inl TypeError
      | Some g \<Rightarrow> (let boardState = board g; isBlack = isPlayerBlack c
                  in render_grid boardState isBlack))"

text \<open>
  \<open>renderBoard\<close> of \<^verbatim>\<open>src/frontend/script.js\<close>: \<open>rank\<close> runs from 7 down to 0,
  \<open>file\<close> from 0 to 7, and nothing of the session is read.
\<close>

definition render_cell_fe :: "boardState \<Rightarrow> nat \<Rightarrow> nat \<Rightarrow> js_error + cell" where
  "render_cell_fe b rank file =
     (case lookup2 b (Some (int rank)) (Some (int file)) of
        Inl e \<Rightarrow> Inl e
      | Inr p \<Rightarrow>
          Inr \<lparr>c_square = [char_of (97 + file)] @ string_of_nat (rank + 1),
               c_light = ((rank + file) mod 2 = 0), c_piece = p\<rparr>)"

definition renderBoard_fe :: "client \<Rightarrow> js_error + cell list" where
  "renderBoard_fe c =
     (case game c of
        None \<Rightarrow> Inl TypeError
      | Some g \<Rightarrow>
          collect (concat (map (\<lambda>rank. map (\<lambda>file. render_cell_fe (board g) rank file)
                                           [0, 1, 2, 3, 4, 5, 6, 7])
                               [7, 6, 5, 4, 3, 2, 1, 0])))"

section \<open>Selection and move controller\<close>

text \<open>
  The classes toggled on the board's elements by \<open>selectSquare\<close> and \<open>clearSelection\<close>
  (\<open>selected\<close>, \<open>possible-move\<close>) are presentation only and never read back; the
  controller's state is the variable \<open>selectedSquare\<close>.
\<close>

definition clearSelection :: "client \<Rightarrow> client" where
  "clearSelection c = c\<lparr>selectedSquare := None\<rparr>"

definition selectSquare :: "client \<Rightarrow> string \<Rightarrow> client" where
  "selectSquare c square = (clearSelection c)\<lparr>selectedSquare := Some square\<rparr>"

text \<open>\<open>if (selectedSquare)\<close>: \<open>null\<close> and the empty string are falsy.\<close>

definition truthy_square :: "string option \<Rightarrow> string option" where
  "truthy_square s = (case s of None \<Rightarrow> None | Some a \<Rightarrow> if a = [] then None else Some a)"

text \<open>
  \<open>piece && ((piece.color === 'w' && isPlayerWhite) || (piece.color === 'b' && !isPlayerWhite))\<close>
\<close>

definition own_piece :: "piece option \<Rightarrow> bool \<Rightarrow> bool" where
  "own_piece p isPlayerWhite =
     (case p of
        None \<Rightarrow> False
      | Some q \<Rightarrow> (pcolor q = White \<and> isPlayerWhite) \<or> (pcolor q = Black \<and> \<not> isPlayerWhite))"

text \<open>The square's indices into \<open>game.board()\<close>, as both handlers compute them.\<close>

definition squareFile :: "string \<Rightarrow> int option" where
  "squareFile square = map_option (\<lambda>k. k - 97) (charCodeAt0 square)"

definition squareRank :: "string \<Rightarrow> int option" where
  "squareRank square = map_option (\<lambda>d. 8 - d) (parseInt1 square)"

text \<open>\<open>sendMoveToServer(from, to)\<close> of \<^verbatim>\<open>src/script.js\<close>.\<close>

definition sendMoveToServer :: "client \<Rightarrow> string \<Rightarrow> string \<Rightarrow> js_error + effect list" where
  "sendMoveToServer c fromSq toSq =
     (case game c of
        None \<Rightarrow> Inr []
      | Some g \<Rightarrow>
          (case lookup2 (board g) (squareRank fromSq) (squareFile fromSq) of
             Inl e \<Rightarrow> Inl e
           | Inr p \<Rightarrow>
               (let promote =
                      (case p of
                         None \<Rightarrow> False
                       | Some q \<Rightarrow>
                           ptype q = Pawn \<and>
                           (let toRank = map_option (\<lambda>d. d - 1) (parseInt1 toSq)
                            in (pcolor q = White \<and> toRank = Some 7) \<or>
                               (pcolor q = Black \<and> toRank = Some 0)));
                    moveUci = fromSq @ toSq @ (if promote then ''q'' else [])
                in Inr [Emit \<lparr>pm_username = currentUsername c, pm_room_id = currentRoomId c,
                               pm_fen = fen g, pm_move_uci = moveUci\<rparr>])))"

text \<open>
  \<open>handleSquareClick\<close> of \<^verbatim>\<open>src/script.js\<close>. \<open>moves g a\<close> is the list of the
  destinations \<open>m.to\<close> of \<open>game.moves({square: a, verbose: true})\<close>. The result is
  the state after the click with the notices and messages it produced, or the exception
  the handler throws (before any assignment).
\<close>

definition handleSquareClick ::
  "(chess \<Rightarrow> string \<Rightarrow> string list) \<Rightarrow> client \<Rightarrow> string \<Rightarrow> js_error + client \<times> effect list" where
  "handleSquareClick moves c square =
     (case game c of
        None \<Rightarrow> Inr (c, [])
      | Some g \<Rightarrow>
          if currentUsername c = [] then Inr (c, [])
          else if toLowerCase (currentUsername c) = ''raunak'' then
            Inr (clearSelection c,
                 [ShowError ''AI is playing automatically. Please wait for your move.''])
          else
            (let isWhiteTurn = (turn g = White); players = players_of c in
             if length players < 2 then Inr (c, [ShowError ''Waiting for opponent''])
             else
               (let playerIndex = indexOf players (currentUsername c);
                    isPlayerWhite = (playerIndex = 0) in
                if isPlayerWhite \<noteq> isWhiteTurn then
                  Inr (clearSelection c, [ShowError ''Not your turn!''])
                else
                  (case lookup2 (board g) (squareRank square) (squareFile square) of
                     Inl e \<Rightarrow> Inl e
                   | Inr p \<Rightarrow>
                       (case truthy_square (selectedSquare c) of
                          Some sel \<Rightarrow>
                            if sel = square then Inr (clearSelection c, [])
                            else if square \<in> set (moves g sel) then
                              (case sendMoveToServer c sel square of
                                 Inl e \<Rightarrow> Inl e
                               | Inr out \<Rightarrow> Inr (clearSelection c, out))
                            else if own_piece p isPlayerWhite then
                              Inr (selectSquare (clearSelection c) square, [])
                            else Inr (clearSelection c, [ShowError ''Invalid move''])
                        | None \<Rightarrow>
                            if own_piece p isPlayerWhite then Inr (selectSquare c square, [])
                            else if p \<noteq> None then Inr (c, [ShowError ''Not your piece!''])
                            else Inr (c, []))))))"

text \<open>
  \<open>sendMoveToServer()\<close> of \<^verbatim>\<open>src/frontend/script.js\<close>: the move sent is the last one
  of the local game's history.
\<close>

definition sendMoveToServer_fe :: "client \<Rightarrow> effect list" where
  "sendMoveToServer_fe c =
     (case game c of
        None \<Rightarrow> []
      | Some g \<Rightarrow>
          (case history g of
             [] \<Rightarrow> []
           | _ # _ \<Rightarrow>
               (let lastMove = last (history g);
                    moveUci = mfrom lastMove @ mto lastMove @
                      (case mpromotion lastMove of
                         None \<Rightarrow> []
                       | Some pr \<Rightarrow> if pr = [] then [] else toLowerCase pr)
                in [Emit \<lparr>pm_username = currentUsername c, pm_room_id = currentRoomId c,
                           pm_fen = fen g, pm_move_uci = moveUci\<rparr>])))"

text \<open>
  \<open>handleSquareClick\<close> of \<^verbatim>\<open>src/frontend/script.js\<close>. \<open>move g a s\<close> is
  \<open>game.move({from: a, to: s, promotion: 'q'})\<close>: \<open>None\<close> when the engine returns
  \<open>null\<close>, otherwise the game as the engine leaves it, the move made and recorded in its
  history.
\<close>

definition handleSquareClick_fe ::
  "(chess \<Rightarrow> string \<Rightarrow> string \<Rightarrow> chess option) \<Rightarrow> client \<Rightarrow> string \<Rightarrow> client \<times> effect list" where
  "handleSquareClick_fe move c square =
     (case game c of
        None \<Rightarrow> (c, [])
      | Some g \<Rightarrow>
          if currentUsername c = [] then (c, [])
          else if toLowerCase (currentUsername c) = ''raunak'' then
            (c, [ShowError ''AI is playing automatically. Please wait for your move.''])
          else
            (let isWhiteTurn = (turn g = White);
                 players = players_of c;
                 playerIndex = indexOf players (currentUsername c);
                 isPlayerWhite = (playerIndex = 0) in
             if isPlayerWhite \<noteq> isWhiteTurn then (c, [ShowError ''Not your turn!''])
             else
               (case truthy_square (selectedSquare c) of
                  Some sel \<Rightarrow>
                    if sel = square then (clearSelection c, [])
                    else
                      (case move g sel square of
                         Some g' \<Rightarrow>
                           (let c' = c\<lparr>game := Some g'\<rparr>
                            in (clearSelection c', sendMoveToServer_fe c'))
                       | None \<Rightarrow> (selectSquare (clearSelection c) square, []))
                | None \<Rightarrow> (selectSquare c square, []))))"

text \<open>
  A run of clicks with no other event between them. A click whose handler throws leaves
  the state as it was.
\<close>

definition click :: "(chess \<Rightarrow> string \<Rightarrow> string list) \<Rightarrow> client \<Rightarrow> string \<Rightarrow> client" where
  "click moves c square =
     (case handleSquareClick moves c square of Inl e \<Rightarrow> c | Inr (c', out) \<Rightarrow> c')"

definition clicks :: "(chess \<Rightarrow> string \<Rightarrow> string list) \<Rightarrow> client \<Rightarrow> string list \<Rightarrow> client" where
  "clicks moves c squares = foldl (click moves) c squares"

definition clicks_fe ::
  "(chess \<Rightarrow> string \<Rightarrow> string \<Rightarrow> chess option) \<Rightarrow> client \<Rightarrow> string list \<Rightarrow> client" where
  "clicks_fe move c squares = foldl (\<lambda>st sq. fst (handleSquareClick_fe move st sq)) c squares"

definition emitted :: "effect list \<Rightarrow> player_move list" where
  "emitted out = concat (map (\<lambda>e. case e of Emit m \<Rightarrow> [m] | _ \<Rightarrow> []) out)"


subsection \<open>Squares, seats and gates, as the specification speaks of them\<close>

text \<open>An algebraic square: a file letter \<open>a\<close> to \<open>h\<close> and a rank digit \<open>1\<close> to \<open>8\<close>.\<close>

definition valid_square :: "string \<Rightarrow> bool" where
  "valid_square s =
     (case s of
        [f, r] \<Rightarrow> (97::nat) \<le> of_char f \<and> of_char f \<le> (104::nat) \<and>
                  (49::nat) \<le> of_char r \<and> of_char r \<le> (56::nat)
      | _ \<Rightarrow> False)"

definition file_index :: "string \<Rightarrow> nat" where
  "file_index s = of_char (s ! 0) - 97"

definition rank_number :: "string \<Rightarrow> nat" where
  "rank_number s = of_char (s ! 1) - 48"

text \<open>\<open>game.board()\<close> is eight rows of eight squares; row 0 is rank 8.\<close>

definition wf_board :: "boardState \<Rightarrow> bool" where
  "wf_board b = (length b = 8 \<and> list_all (\<lambda>row. length row = 8) b)"

definition piece_at :: "boardState \<Rightarrow> string \<Rightarrow> piece option" where
  "piece_at b s = (b ! (8 - rank_number s)) ! file_index s"

text \<open>
  The client's seat, by matching its username against the displayed White and Black
  names; \<open>-\<close> is displayed for an empty seat.
\<close>

definition seat :: "client \<Rightarrow> color option" where
  "seat c =
     (if whiteName c \<noteq> ''-'' \<and> currentUsername c = whiteName c then Some White
      else if blackName c \<noteq> ''-'' \<and> currentUsername c = blackName c then Some Black
      else None)"

definition both_seated :: "client \<Rightarrow> bool" where
  "both_seated c = (whiteName c \<noteq> ''-'' \<and> blackName c \<noteq> ''-'')"

text \<open>The square \<open>s\<close> holds a piece of the client's seat colour.\<close>

definition owned :: "client \<Rightarrow> boardState \<Rightarrow> string \<Rightarrow> bool" where
  "owned c b s = (case piece_at b s of None \<Rightarrow> False | Some q \<Rightarrow> seat c = Some (pcolor q))"

text \<open>
  A click gets past the gates of \<^verbatim>\<open>src/script.js\<close>: a username that is set and not
  the reserved one, two displayed players, and the client's seat to move.
  \<^verbatim>\<open>src/frontend/script.js\<close> has the same gates but for the count of players.
\<close>

definition gates_pass :: "client \<Rightarrow> chess \<Rightarrow> bool" where
  "gates_pass c g =
     (currentUsername c \<noteq> [] \<and> toLowerCase (currentUsername c) \<noteq> ''raunak'' \<and>
      both_seated c \<and> seat c = Some (turn g))"


section \<open>Lobby: the quick-match room\<close>

text \<open>
  What \<open>response.json()\<close> can resolve to: any JSON value. Numbers are taken as reals; an
  object is the list of its members in the order of the text, and the last member of a
  name is the one \<open>JSON.parse\<close> keeps. A value of the host language is a JSON value or
  \<open>undefined\<close> (\<open>None\<close>).
\<close>

datatype json =
    JNull
  | JBool bool
  | JNum real
  | JStr string
  | JArr "json list"
  | JObj "(string \<times> json) list"

text \<open>The outcome of the room-listing query: \<open>fetch\<close> rejects, \<open>response.json()\<close>
  rejects, or the body parses.\<close>

datatype query_outcome = FetchRejected | JsonRejected | Parsed json

definition own_prop :: "(string \<times> json) list \<Rightarrow> string \<Rightarrow> json option" where
  "own_prop kv name = map_of (rev kv) name"

text \<open>
  \<open>v.name\<close> for the names \<open>rooms\<close>, \<open>length\<close> and \<open>room_id\<close>: reading a property of
  \<open>undefined\<close> or \<open>null\<close> throws; an array and a string have a \<open>length\<close>; a number
  and a boolean have none of the three.
\<close>

definition get_prop :: "json option \<Rightarrow> string \<Rightarrow> js_error + json option" where
  "get_prop v name =
     (case v of
        None \<Rightarrow> Inl TypeError
      | Some JNull \<Rightarrow> Inl TypeError
      | Some (JObj kv) \<Rightarrow> Inr (own_prop kv name)
      | Some (JArr xs) \<Rightarrow> Inr (if name = ''length'' then Some (JNum (real (length xs))) else None)
      | Some (JStr s) \<Rightarrow> Inr (if name = ''length'' then Some (JNum (real (length s))) else None)
      | Some (JBool b) \<Rightarrow> Inr None
      | Some (JNum n) \<Rightarrow> Inr None)"

text \<open>Truthiness: \<open>undefined\<close>, \<open>null\<close>, \<open>false\<close>, \<open>0\<close> and the empty string are falsy.\<close>

definition truthy :: "json option \<Rightarrow> bool" where
  "truthy v =
     (case v of
        None \<Rightarrow> False
      | Some JNull \<Rightarrow> False
      | Some (JBool b) \<Rightarrow> b
      | Some (JNum n) \<Rightarrow> n \<noteq> 0
      | Some (JStr s) \<Rightarrow> s \<noteq> []
      | Some (JArr xs) \<Rightarrow> True
      | Some (JObj kv) \<Rightarrow> True)"

text \<open>
  The number a value is converted to by the comparison and the product; \<open>None\<close> is NaN. The
  conversion of strings, arrays and objects is the host language's and is the parameter
  \<open>coerce\<close>; it is asked only when \<open>rooms\<close> is an object with a member \<open>length\<close>.
\<close>

definition to_number :: "(json \<Rightarrow> real option) \<Rightarrow> json option \<Rightarrow> real option" where
  "to_number coerce v =
     (case v of
        None \<Rightarrow> None
      | Some JNull \<Rightarrow> Some 0
      | Some (JBool b) \<Rightarrow> Some (if b then 1 else 0)
      | Some (JNum n) \<Rightarrow> Some n
      | Some (JStr s) \<Rightarrow> coerce (JStr s)
      | Some (JArr xs) \<Rightarrow> coerce (JArr xs)
      | Some (JObj kv) \<Rightarrow> coerce (JObj kv))"

definition string_of_int :: "int \<Rightarrow> string" where
  "string_of_int k = (if k < 0 then ''-'' @ string_of_nat (nat (- k)) else string_of_nat (nat k))"

text \<open>
  \<open>v[k]\<close> for an integer \<open>k\<close>: an element of an array, a character of a string, the
  member of an object whose name is the digits of \<open>k\<close>.
\<close>

definition elem :: "json option \<Rightarrow> int \<Rightarrow> js_error + json option" where
  "elem v k =
     (case v of
        None \<Rightarrow> Inl TypeError
      | Some JNull \<Rightarrow> Inl TypeError
      | Some (JArr xs) \<Rightarrow> Inr (if 0 \<le> k \<and> k < int (length xs) then Some (xs ! nat k) else None)
      | Some (JStr s) \<Rightarrow>
          Inr (if 0 \<le> k \<and> k < int (length s) then Some (JStr [s ! nat k]) else None)
      | Some (JObj kv) \<Rightarrow> Inr (own_prop kv (string_of_int k))
      | Some (JBool b) \<Rightarrow> Inr None
      | Some (JNum n) \<Rightarrow> Inr None)"

text \<open>\<open>'room' + Math.floor(Math.random() * 10000)\<close>, for the value \<open>r\<close> of \<open>Math.random()\<close>.\<close>

definition fallback_room :: "real \<Rightarrow> string" where
  "fallback_room r = ''room'' @ string_of_nat (nat \<lfloor>r * 10000\<rfloor>)"

text \<open>
  \<open>data.rooms && data.rooms.length > 0\<close>: the number \<open>data.rooms.length\<close> converts to
  when the condition holds, \<open>None\<close> when it does not.
\<close>

definition rooms_available :: "(json \<Rightarrow> real option) \<Rightarrow> json option \<Rightarrow> real option" where
  "rooms_available coerce rooms =
     (if truthy rooms then
        (case get_prop rooms ''length'' of
           Inl e \<Rightarrow> None
         | Inr len \<Rightarrow>
             (case to_number coerce len of
                None \<Rightarrow> None
              | Some n \<Rightarrow> if n > 0 then Some n else None))
      else None)"

text \<open>
  The \<open>try\<close> block of \<open>getRandomRoom\<close>. \<open>rnd 0\<close>, \<open>rnd 1\<close>, \<dots> are the values of the
  successive calls of \<open>Math.random()\<close>; the second component counts the calls made.
\<close>

definition try_rooms ::
  "(json \<Rightarrow> real option) \<Rightarrow> query_outcome \<Rightarrow> (nat \<Rightarrow> real) \<Rightarrow> (js_error + json option) \<times> nat" where
  "try_rooms coerce q rnd =
     (case q of
        FetchRejected \<Rightarrow> (Inl TypeError, 0)
      | JsonRejected \<Rightarrow> (Inl SyntaxError, 0)
      | Parsed data \<Rightarrow>
          (case get_prop (Some data) ''rooms'' of
             Inl e \<Rightarrow> (Inl e, 0)
           | Inr rooms \<Rightarrow>
               (case rooms_available coerce rooms of
                  Some n \<Rightarrow>
                    (case elem rooms \<lfloor>rnd 0 * n\<rfloor> of
                       Inl e \<Rightarrow> (Inl e, 1)
                     | Inr randomRoom \<Rightarrow> (get_prop randomRoom ''room_id'', 1))
                | None \<Rightarrow> (Inr (Some (JStr (fallback_room (rnd 0)))), 1))))"

text \<open>
  \<open>getRandomRoom\<close> (the same in both variants but for the server's address): the
  \<open>catch\<close> block answers every exception of the \<open>try\<close> block with the fallback, made
  from the next value of \<open>Math.random()\<close>. The result is what the function returns,
  \<open>None\<close> for \<open>undefined\<close>.
\<close>

definition getRandomRoom ::
  "(json \<Rightarrow> real option) \<Rightarrow> query_outcome \<Rightarrow> (nat \<Rightarrow> real) \<Rightarrow> js_error + json option" where
  "getRandomRoom coerce q rnd =
     (case try_rooms coerce q rnd of
        (Inl e, n) \<Rightarrow> Inr (Some (JStr (fallback_room (rnd n))))
      | (Inr v, n) \<Rightarrow> Inr v)"

definition fallback_pattern :: "string \<Rightarrow> bool" where
  "fallback_pattern s = (\<exists>k\<le>9999. s = ''room'' @ string_of_nat k)"

text \<open>
  A body of the listing's shape: an object whose \<open>rooms\<close> is an array of objects, each
  with a string \<open>room_id\<close>; \<open>ids\<close> are the identifiers in the order of the array.
\<close>

definition room_entry :: "json \<Rightarrow> string \<Rightarrow> bool" where
  "room_entry e i = (case e of JObj kv \<Rightarrow> own_prop kv ''room_id'' = Some (JStr i) | _ \<Rightarrow> False)"

definition listing :: "json \<Rightarrow> string list \<Rightarrow> bool" where
  "listing data ids =
     (case data of
        JObj kv \<Rightarrow>
          (case own_prop kv ''rooms'' of
             Some (JArr es) \<Rightarrow> list_all2 room_entry es ids
           | _ \<Rightarrow> False)
      | _ \<Rightarrow> False)"

text \<open>The values of \<open>Math.random()\<close> and the conversion used in the examples.\<close>

definition half :: "nat \<Rightarrow> real" where
  "half n = 1 / 2"

definition no_coercion :: "json \<Rightarrow> real option" where
  "no_coercion v = None"

section \<open>Session and sync handlers\<close>

text \<open>
  The handlers below are the same in both variants, but for the renderer they call. The
  panels they show and hide, the status line's colour, the turn indicator and the move
  list of \<open>updateUI\<close> are presentation and are left out.

  \<open>String.prototype.trim\<close>, on the ASCII white space.
\<close>

definition is_space :: "char \<Rightarrow> bool" where
  "is_space ch = (of_char ch \<in> {9, 10, 11, 12, 13, 32 :: nat})"

definition trim :: "string \<Rightarrow> string" where
  "trim s = rev (dropWhile is_space (rev (dropWhile is_space s)))"

text \<open>The click handler of the join button, for the contents of the two inputs.\<close>

definition joinRoom :: "client \<Rightarrow> string \<Rightarrow> string \<Rightarrow> client \<times> effect list" where
  "joinRoom c usernameInput roomIdInput =
     (let username = trim usernameInput;
          roomId = (if trim roomIdInput = [] then ''default'' else trim roomIdInput)
      in if username = [] then (c, [ShowError ''Please enter a username''])
         else (c\<lparr>currentUsername := username, currentRoomId := roomId\<rparr>,
               [EmitJoin username roomId]))"

text \<open>
  The click handler of the leave button; \<open>newChess\<close> is \<open>new Chess()\<close>. The variable
  \<open>selectedSquare\<close> is not assigned.
\<close>

definition leaveGame :: "chess \<Rightarrow> client \<Rightarrow> client" where
  "leaveGame newChess c = c\<lparr>game := Some newChess, currentUsername := [], currentRoomId := []\<rparr>"

text \<open>
  \<open>updateBoardFromFEN\<close> of \<^verbatim>\<open>src/script.js\<close>; \<open>load g fen\<close> is the game after
  \<open>game.load(fen)\<close>. The second component is the grid that \<open>renderBoard\<close> built, if
  it was called.
\<close>

definition updateBoardFromFEN ::
  "(chess \<Rightarrow> string \<Rightarrow> chess) \<Rightarrow> client \<Rightarrow> string \<Rightarrow> client \<times> (js_error + cell list) option" where
  "updateBoardFromFEN load c f =
     (case game c of
        None \<Rightarrow> (c, None)
      | Some g \<Rightarrow> (let c' = c\<lparr>game := Some (load g f)\<rparr> in (c', Some (renderBoard c'))))"

text \<open>\<open>x || '-'\<close> for a name that may be \<open>null\<close> or empty.\<close>

definition or_dash :: "string option \<Rightarrow> string" where
  "or_dash x = (case x of None \<Rightarrow> ''-'' | Some n \<Rightarrow> if n = [] then ''-'' else n)"

record snapshot =
  s_fen :: "string option"
  s_players :: "string option list option"
  s_status :: string
  s_turn :: string

text \<open>\<open>players[i]?.toLowerCase()\<close>\<close>

definition lower_opt :: "string option list \<Rightarrow> nat \<Rightarrow> string option" where
  "lower_opt players i =
     (if i < length players then map_option toLowerCase (players ! i) else None)"

text \<open>
  The text the \<open>game_state\<close> handler writes to the status line, for the snapshot
  \<open>d\<close> and the local username.
\<close>

definition gameStatusText :: "snapshot \<Rightarrow> string \<Rightarrow> string" where
  "gameStatusText d username =
     (if s_status d = ''ongoing'' then
        (case s_players d of
           None \<Rightarrow> ''Waiting for opponent...''
         | Some ps \<Rightarrow>
             if length ps = 2 then
               (let isWhiteTurn = (s_turn d = ''white'');
                    isRaunakTurn = ((isWhiteTurn \<and> lower_opt ps 0 = Some ''raunak'') \<or>
                                    (\<not> isWhiteTurn \<and> lower_opt ps 1 = Some ''raunak''))
                in if isRaunakTurn \<and> toLowerCase username = ''raunak''
                   then ''AI is calculating your move...''
                   else ''Game in progress'')
             else ''Waiting for opponent...'')
      else ''Game over: '' @ s_status d)"

text \<open>
  The \<open>game_state\<close> handler of \<^verbatim>\<open>src/script.js\<close>, in the order of the source: the
  board is loaded and rendered first, the displayed names are set after that, then the
  status line. The result is the new state, the grid rendered (if any) and the status
  text.
\<close>

definition on_game_state ::
  "(chess \<Rightarrow> string \<Rightarrow> chess) \<Rightarrow> chess \<Rightarrow> client \<Rightarrow> snapshot \<Rightarrow>
     client \<times> (js_error + cell list) option \<times> string" where
  "on_game_state load newChess c d =
     (let c1 = (case game c of None \<Rightarrow> c\<lparr>game := Some newChess\<rparr> | Some g \<Rightarrow> c);
          upd = (case s_fen d of
                   None \<Rightarrow> (c1, None)
                 | Some f \<Rightarrow> if f = [] then (c1, None) else updateBoardFromFEN load c1 f);
          c2 = fst upd;
          c3 = (case s_players d of
                  None \<Rightarrow> c2
                | Some ps \<Rightarrow>
                    if length ps > 0 then
                      c2\<lparr>whiteName := or_dash (ps ! 0),
                         blackName := (if length ps > 1 then or_dash (ps ! 1) else ''-'')\<rparr>
                    else c2)
      in (c3, snd upd, gameStatusText d (currentUsername c)))"

text \<open>The \<open>move_update\<close> handler.\<close>

definition on_move_update ::
  "(chess \<Rightarrow> string \<Rightarrow> chess) \<Rightarrow> client \<Rightarrow> string option \<Rightarrow>
     client \<times> (js_error + cell list) option" where
  "on_move_update load c fenOpt =
     (case fenOpt of
        None \<Rightarrow> (c, None)
      | Some f \<Rightarrow> if f = [] then (c, None) else updateBoardFromFEN load c f)"

section \<open>Concrete positions and engine answers used in the examples\<close>

definition pc :: "color \<Rightarrow> ptype \<Rightarrow> piece option" where
  "pc col t = Some \<lparr>pcolor = col, ptype = t\<rparr>"

definition back_row :: "color \<Rightarrow> piece option list" where
  "back_row col = map (pc col) [Rook, Knight, Bishop, Queen, King, Bishop, Knight, Rook]"

definition empty_row :: "piece option list" where
  "empty_row = replicate 8 None"

definition start_board :: boardState where
  "start_board =
     [back_row Black, replicate 8 (pc Black Pawn), empty_row, empty_row,
      empty_row, empty_row, replicate 8 (pc White Pawn), back_row White]"

definition e4_board :: boardState where
  "e4_board =
     [back_row Black, replicate 8 (pc Black Pawn), empty_row, empty_row,
      [None, None, None, None, pc White Pawn, None, None, None], empty_row,
      [pc White Pawn, pc White Pawn, pc White Pawn, pc White Pawn, None,
       pc White Pawn, pc White Pawn, pc White Pawn],
      back_row White]"



definition start_game :: chess where
  "start_game =
     \<lparr>board = start_board, turn = White,
      fen = ''rnbqkbnr/pppppppp/8/8/8/8/PPPPPPPP/RNBQKBNR w KQkq - 0 1'', history = []\<rparr>"

definition e4_game :: chess where
  "e4_game =
     \<lparr>board = e4_board, turn = Black,
      fen = ''rnbqkbnr/pppppppp/8/8/4P3/8/PPPP1PPP/RNBQKBNR b KQkq e3 0 1'',
      history = [\<lparr>mfrom = ''e2'', mto = ''e4'', mpromotion = None\<rparr>]\<rparr>"

text \<open>The engine's answers on these two positions, for the squares the examples click.\<close>

definition stub_moves :: "chess \<Rightarrow> string \<Rightarrow> string list" where
  "stub_moves g a =
     (if turn g = White \<and> a = ''e2'' then [''e3'', ''e4'']
      else if turn g = White \<and> a = ''e7'' then [''e8'']
      else if turn g = Black \<and> a = ''e7'' then [''e6'', ''e5'']
      else [])"

definition stub_move :: "chess \<Rightarrow> string \<Rightarrow> string \<Rightarrow> chess option" where
  "stub_move g a s =
     (if turn g = White \<and> a = ''e2'' \<and> s = ''e4'' then Some e4_game else None)"

text \<open>\<open>game.load\<close> on the two positions of the examples.\<close>

definition stub_load :: "chess \<Rightarrow> string \<Rightarrow> chess" where
  "stub_load g f =
     (if f = fen start_game then start_game else if f = fen e4_game then e4_game else g)"

definition session :: "string \<Rightarrow> chess \<Rightarrow> string option \<Rightarrow> client" where
  "session username g sel =
     \<lparr>game = Some g, currentUsername = username, currentRoomId = ''r1'',
      selectedSquare = sel, whiteName = ''alice'', blackName = ''bob''\<rparr>"


text \<open>
  Sessions reached through the handlers. alice, seated White against bob, selects e2,
  leaves the match and joins room r2: under the reserved name, where the first snapshot
  seats her against bob, or under her own name, where the snapshot shows her alone.
\<close>

definition left_with_selection :: client where
  "left_with_selection =
     leaveGame start_game (click stub_moves (session ''alice'' start_game None) ''e2'')"

definition snapshot_of :: "string option list \<Rightarrow> snapshot" where
  "snapshot_of ps =
     \<lparr>s_fen = Some (fen start_game), s_players = Some ps, s_status = ''ongoing'',
      s_turn = ''white''\<rparr>"

definition rejoined_as_reserved :: client where
  "rejoined_as_reserved =
     fst (on_game_state stub_load start_game
            (fst (joinRoom left_with_selection ''raunak'' ''r2''))
            (snapshot_of [Some ''raunak'', Some ''bob'']))"

definition rejoined_alone :: client where
  "rejoined_alone =
     fst (on_game_state stub_load start_game
            (fst (joinRoom left_with_selection ''alice'' ''r2''))
            (snapshot_of [Some ''alice'']))"

text \<open>bob has joined room r1 from the lobby; no snapshot has arrived yet.\<close>

definition joined_bob :: client where
  "joined_bob =
     \<lparr>game = Some start_game, currentUsername = ''bob'', currentRoomId = ''r1'',
      selectedSquare = None, whiteName = ''-'', blackName = ''-''\<rparr>"

section \<open>Notions used in the statements\<close>

text \<open>The cell that \<open>render_cell\<close> builds when the board has the square.\<close>

definition grid_cell :: "boardState \<Rightarrow> nat \<Rightarrow> nat \<Rightarrow> cell" where
  "grid_cell b rankIdx fileIdx =
     \<lparr>c_square = [char_of (97 + fileIdx)] @ string_of_nat (8 - rankIdx),
      c_light = ((rankIdx + fileIdx) mod 2 = 0),
      c_piece = (b ! rankIdx) ! fileIdx\<rparr>"

text \<open>The class a rendered grid gives to an algebraic square: light, dark, or no such cell.\<close>

definition classification :: "cell list \<Rightarrow> string \<Rightarrow> bool option" where
  "classification cells sq = map_of (map (\<lambda>x. (c_square x, c_light x)) cells) sq"

text \<open>The \<open>data-square\<close> labels of a rendering, in grid order (none when it threw).\<close>

definition square_labels :: "js_error + cell list \<Rightarrow> string list" where
  "square_labels r = (case r of Inl e \<Rightarrow> [] | Inr cells \<Rightarrow> map c_square cells)"

text \<open>The same for the grid a sync handler rendered, if it rendered one.\<close>

definition rendered_labels :: "(js_error + cell list) option \<Rightarrow> string list" where
  "rendered_labels r = (case r of None \<Rightarrow> [] | Some grid \<Rightarrow> square_labels grid)"

section \<open>Facts about the host-language helpers and the examples\<close>

lemma lookup2_valid:
  assumes "valid_square s" "wf_board b"
  shows "lookup2 b (squareRank s) (squareFile s) = Inr (piece_at b s)"
proof -
  from assms(1) obtain f r where s: "s = [f, r]"
    and f: "(97::nat) \<le> of_char f" "of_char f \<le> (104::nat)"
    and r: "(49::nat) \<le> of_char r" "of_char r \<le> (56::nat)"
    by (auto simp: valid_square_def split: list.splits)
  from assms(2) have len: "length b = 8" and rows: "\<And>i. i < 8 \<Longrightarrow> length (b ! i) = 8"
    by (auto simp: wf_board_def list_all_length)
  have rk: "squareRank s = Some (int (8 - rank_number s))" "8 - rank_number s < 8"
    using r by (auto simp: s squareRank_def parseInt1_def rank_number_def)
  have fl: "squareFile s = Some (int (file_index s))" "file_index s < 8"
    using f by (auto simp: s squareFile_def charCodeAt0_def file_index_def)
  show ?thesis
    using rk fl len rows[OF rk(2)] by (simp add: lookup2_def piece_at_def)
qed

lemma players_of_seated: "both_seated c \<Longrightarrow> players_of c = [whiteName c, blackName c]"
  by (simp add: both_seated_def players_of_def)

lemma length_players_of: "(length (players_of c) < 2) = (\<not> both_seated c)"
  by (auto simp: both_seated_def players_of_def)

lemma wf_start_board: "wf_board start_board"
  by (simp add: wf_board_def start_board_def back_row_def empty_row_def)

lemma wf_e4_board: "wf_board e4_board"
  by (simp add: wf_board_def e4_board_def back_row_def empty_row_def)


lemma valid_squares: "valid_square ''e2''" "valid_square ''e4''" "valid_square ''d2''"
  "valid_square ''e7''" "valid_square ''e5''" "valid_square ''e8''"
  by (simp_all add: valid_square_def)

lemma session_simps:
  "game (session u g sel) = Some g" "currentUsername (session u g sel) = u"
  "selectedSquare (session u g sel) = sel" "whiteName (session u g sel) = ''alice''"
  "blackName (session u g sel) = ''bob''" "currentRoomId (session u g sel) = ''r1''"
  by (simp_all add: session_def)

section \<open>The controller behind its gates\<close>

lemma gates_pass_index:
  assumes "gates_pass c g"
  shows "(indexOf (players_of c) (currentUsername c) = 0) = (turn g = White)"
proof -
  from assms have bs: "both_seated c" and st: "seat c = Some (turn g)"
    by (simp_all add: gates_pass_def)
  have p: "players_of c = [whiteName c, blackName c]" by (rule players_of_seated[OF bs])
  show ?thesis
  proof (cases "currentUsername c = whiteName c")
    case True
    with bs st have "turn g = White" by (simp add: seat_def both_seated_def)
    with True p show ?thesis by simp
  next
    case False
    with st have "turn g = Black" by (simp add: seat_def split: if_splits)
    with False p show ?thesis by (auto simp: Let_def)
  qed
qed

lemma own_piece_seat:
  assumes "gates_pass c g"
  shows "own_piece (piece_at b s) (indexOf (players_of c) (currentUsername c) = 0) = owned c b s"
proof -
  have st: "seat c = Some (turn g)" using assms by (simp add: gates_pass_def)
  have ix: "(indexOf (players_of c) (currentUsername c) = 0) = (turn g = White)"
    by (rule gates_pass_index[OF assms])
  show ?thesis
  proof (cases "piece_at b s")
    case None
    then show ?thesis by (simp add: own_piece_def owned_def)
  next
    case (Some q)
    show ?thesis
      unfolding Some ix st own_piece_def owned_def
      by (cases "turn g"; cases "pcolor q") simp_all
  qed
qed

lemma handleSquareClick_gated:
  assumes g: "game c = Some g" and gp: "gates_pass c g"
    and s: "valid_square s" and b: "wf_board (board g)"
  shows "handleSquareClick moves c s =
     (case truthy_square (selectedSquare c) of
        Some sel \<Rightarrow>
          if sel = s then Inr (clearSelection c, [])
          else if s \<in> set (moves g sel) then
            (case sendMoveToServer c sel s of
               Inl e \<Rightarrow> Inl e
             | Inr out \<Rightarrow> Inr (clearSelection c, out))
          else if owned c (board g) s then
            Inr (selectSquare (clearSelection c) s, [])
          else Inr (clearSelection c, [ShowError ''Invalid move''])
      | None \<Rightarrow>
          if owned c (board g) s then
            Inr (selectSquare c s, [])
          else if piece_at (board g) s \<noteq> None then Inr (c, [ShowError ''Not your piece!''])
          else Inr (c, []))"
proof -
  from gp have u: "currentUsername c \<noteq> []" "toLowerCase (currentUsername c) \<noteq> ''raunak''"
    and bs: "both_seated c"
    by (simp_all add: gates_pass_def)
  have len: "\<not> length (players_of c) < 2" using bs by (simp add: length_players_of)
  note ix = gates_pass_index[OF gp]
  note own = own_piece_seat[OF gp, unfolded ix]
  note lk = lookup2_valid[OF s b]
  show ?thesis
    unfolding handleSquareClick_def
    by (simp add: g u len ix own lk Let_def split: option.split)
qed

lemma handleSquareClick_ungated:
  assumes g: "game c = Some g" and ng: "\<not> gates_pass c g" and st: "seat c \<noteq> None"
  shows "\<exists>out. emitted out = [] \<and>
           (handleSquareClick moves c s = Inr (c, out) \<or>
            handleSquareClick moves c s = Inr (clearSelection c, out))"
proof (cases "currentUsername c = []")
  case True
  then have "handleSquareClick moves c s = Inr (c, [])"
    by (simp add: handleSquareClick_def g)
  then show ?thesis by (intro exI[of _ "[]"]) (simp add: emitted_def)
next
  case u: False
  show ?thesis
  proof (cases "toLowerCase (currentUsername c) = ''raunak''")
    case True
    with u have "handleSquareClick moves c s = Inr (clearSelection c,
        [ShowError ''AI is playing automatically. Please wait for your move.''])"
      by (simp add: handleSquareClick_def g)
    then show ?thesis
      by (intro exI[of _ "[ShowError ''AI is playing automatically. Please wait for your move.'']"])
         (simp add: emitted_def)
  next
    case r: False
    show ?thesis
    proof (cases "both_seated c")
      case False
      then have "length (players_of c) < 2" by (simp add: length_players_of)
      with u r have "handleSquareClick moves c s = Inr (c, [ShowError ''Waiting for opponent''])"
        by (simp add: handleSquareClick_def g Let_def)
      then show ?thesis
        by (intro exI[of _ "[ShowError ''Waiting for opponent'']"]) (simp add: emitted_def)
    next
      case bs: True
      then have len: "\<not> length (players_of c) < 2" by (simp add: length_players_of)
      have p: "players_of c = [whiteName c, blackName c]" by (rule players_of_seated[OF bs])
      from ng u r bs have ns: "seat c \<noteq> Some (turn g)" by (simp add: gates_pass_def)
      have "(indexOf (players_of c) (currentUsername c) = 0) \<noteq> (turn g = White)"
      proof (cases "currentUsername c = whiteName c")
        case True
        with bs have "seat c = Some White" by (simp add: seat_def both_seated_def)
        with ns have "turn g \<noteq> White" by auto
        with True p show ?thesis by simp
      next
        case False
        with st have "seat c = Some Black" by (simp add: seat_def split: if_splits)
        with ns have "turn g \<noteq> Black" by auto
        then have "turn g = White" by (cases "turn g") simp_all
        with False p show ?thesis by (auto simp: Let_def)
      qed
      with u r len have "handleSquareClick moves c s = Inr (clearSelection c, [ShowError ''Not your turn!''])"
        by (simp add: handleSquareClick_def g Let_def)
      then show ?thesis
        by (intro exI[of _ "[ShowError ''Not your turn!'']"]) (simp add: emitted_def)
    qed
  qed
qed

lemma sendMoveToServer_emits:
  "sendMoveToServer c a s = Inr out \<Longrightarrow> length out \<le> 1"
  by (auto simp: sendMoveToServer_def Let_def split: option.splits sum.splits)

lemma handleSquareClick_frame:
  assumes "handleSquareClick moves c s = Inr (c', out)"
  shows "\<exists>sel. c' = c\<lparr>selectedSquare := sel\<rparr>"
  using assms
  unfolding handleSquareClick_def Let_def clearSelection_def selectSquare_def
  by (auto split: option.splits sum.splits if_splits intro: exI[of _ "selectedSquare c"])

section \<open>Idle clicks (claim C3)\<close>

text \<open>
  Claim C3, as amended. In \<^verbatim>\<open>src/script.js\<close>, for a client that holds a seat, a click
  at a square \<open>s\<close> of the board while nothing is selected throws nothing, sends nothing
  and leaves the game as it is; afterwards \<open>s\<close> is selected exactly when the click gets
  past the gates and \<open>s\<close> holds a piece of the client's seat colour, and nothing is
  selected otherwise.
\<close>

theorem idle_click_selects_own_piece:
  assumes g: "game c = Some g" and idle: "selectedSquare c = None" and st: "seat c \<noteq> None"
    and s: "valid_square s" and b: "wf_board (board g)"
  shows "\<exists>c' out. handleSquareClick moves c s = Inr (c', out) \<and> emitted out = [] \<and>
           game c' = game c \<and>
           selectedSquare c' = (if gates_pass c g \<and> owned c (board g) s then Some s else None)"
proof (cases "gates_pass c g")
  case True
  have t: "truthy_square (selectedSquare c) = None" by (simp add: idle truthy_square_def)
  show ?thesis
    unfolding handleSquareClick_gated[OF g True s b] t
    by (simp add: True emitted_def selectSquare_def clearSelection_def idle)
next
  case False
  from handleSquareClick_ungated[OF g False st, of moves s]
  obtain out where "emitted out = []"
    and "handleSquareClick moves c s = Inr (c, out) \<or>
         handleSquareClick moves c s = Inr (clearSelection c, out)" by blast
  then show ?thesis using False idle by (auto simp: clearSelection_def)
qed

theorem idle_click_selects_own_piece_witness:
  "seat (session ''alice'' start_game None) \<noteq> None \<and> valid_square ''e2'' \<and>
   wf_board (board start_game) \<and>
   (\<exists>c' out. handleSquareClick stub_moves (session ''alice'' start_game None) ''e2'' = Inr (c', out) \<and>
      selectedSquare c' = Some ''e2'')"
proof -
  have b: "wf_board (board start_game)" by (simp add: start_game_def wf_start_board)
  have st: "seat (session ''alice'' start_game None) \<noteq> None" by (simp add: seat_def session_def)
  have gp: "gates_pass (session ''alice'' start_game None) start_game"
    by (simp add: gates_pass_def both_seated_def seat_def session_def start_game_def
                  toLowerCase_def lower_char_def)
  have ow: "owned (session ''alice'' start_game None) (board start_game) ''e2''"
    by (simp add: owned_def piece_at_def rank_number_def file_index_def start_game_def
                  start_board_def seat_def session_def pc_def)
  show ?thesis
    using idle_click_selects_own_piece[of "session ''alice'' start_game None" start_game "''e2''" stub_moves]
      b st gp ow valid_squares(1)
    by (auto simp: session_simps)
qed

text \<open>
  The claim as it was written promises the selection whenever the piece is the client's
  own. With Black to move, White's client clicks its own pawn on d2 and stays idle behind
  the turn gate.
\<close>

theorem idle_click_own_piece_wrong_turn:
  "selectedSquare (session ''alice'' e4_game None) = None \<and>
   seat (session ''alice'' e4_game None) = Some White \<and>
   piece_at (board e4_game) ''d2'' = Some \<lparr>pcolor = White, ptype = Pawn\<rparr> \<and>
   handleSquareClick stub_moves (session ''alice'' e4_game None) ''d2'' =
     Inr (session ''alice'' e4_game None, [ShowError ''Not your turn!''])"
  by (simp add: handleSquareClick_def session_def e4_game_def seat_def players_of_def
                toLowerCase_def lower_char_def clearSelection_def piece_at_def
                rank_number_def file_index_def e4_board_def pc_def)


text \<open>
  \<^verbatim>\<open>src/frontend/script.js\<close> has no test of the piece: its idle click selects the
  empty square e4.
\<close>

lemma frontend_idle_click_selects_any_square:
  "piece_at (board start_game) ''e4'' = None \<and>
   handleSquareClick_fe stub_move (session ''alice'' start_game None) ''e4'' =
     (session ''alice'' start_game (Some ''e4''), [])"
  by (simp add: handleSquareClick_fe_def session_def start_game_def players_of_def
                toLowerCase_def lower_char_def truthy_square_def selectSquare_def
                clearSelection_def piece_at_def rank_number_def file_index_def
                start_board_def empty_row_def)

section \<open>The encoding of a proposed move (claim C6)\<close>






text \<open>The scenario of the specification: White clicks e2, then e4.\<close>

lemma click_e2_e4_emits:
  "clicks stub_moves (session ''alice'' start_game None) [''e2''] =
     session ''alice'' start_game (Some ''e2'') \<and>
   handleSquareClick stub_moves (session ''alice'' start_game (Some ''e2'')) ''e4'' =
     Inr (session ''alice'' start_game None,
          [Emit \<lparr>pm_username = ''alice'', pm_room_id = ''r1'', pm_fen = fen start_game,
                  pm_move_uci = ''e2e4''\<rparr>])"
  by (simp add: clicks_def click_def handleSquareClick_def sendMoveToServer_def session_def
                start_game_def players_of_def toLowerCase_def lower_char_def truthy_square_def
                stub_moves_def squareRank_def squareFile_def parseInt1_def charCodeAt0_def
                lookup2_def start_board_def back_row_def empty_row_def pc_def clearSelection_def
                selectSquare_def own_piece_def)

text \<open>
  \<^verbatim>\<open>src/frontend/script.js\<close> sends what the engine recorded as the last move; the
  encoding is the same when the engine marks a move as a promotion to \<open>q\<close> in exactly
  that case.
\<close>

lemma sendMoveToServer_fe_encoding:
  assumes "game c = Some g" "history g \<noteq> []"
    and "last (history g) = \<lparr>mfrom = a, mto = s, mpromotion = (if promo then Some ''q'' else None)\<rparr>"
  shows "sendMoveToServer_fe c =
           [Emit \<lparr>pm_username = currentUsername c, pm_room_id = currentRoomId c, pm_fen = fen g,
                   pm_move_uci = a @ s @ (if promo then ''q'' else [])\<rparr>]"
  using assms
  by (cases "history g") (simp_all add: sendMoveToServer_fe_def Let_def toLowerCase_def lower_char_def)


section \<open>Sessions reached through the handlers\<close>

text \<open>
  Leaving a match resets the game and the session identity but not the selection, so the
  next session starts with the square selected in the last one.
\<close>

lemma trim_names: "trim ''raunak'' = ''raunak''" "trim ''alice'' = ''alice''" "trim ''r2'' = ''r2''"
  by (simp_all add: trim_def is_space_def)

lemma left_with_selection_eq:
  "left_with_selection =
     \<lparr>game = Some start_game, currentUsername = [], currentRoomId = [],
      selectedSquare = Some ''e2'', whiteName = ''alice'', blackName = ''bob''\<rparr>"
proof -
  have "click stub_moves (session ''alice'' start_game None) ''e2'' =
        session ''alice'' start_game (Some ''e2'')"
    using click_e2_e4_emits by (simp add: clicks_def)
  then show ?thesis by (simp add: left_with_selection_def leaveGame_def session_def)
qed

lemma rejoined_as_reserved_eq:
  "rejoined_as_reserved =
     \<lparr>game = Some start_game, currentUsername = ''raunak'', currentRoomId = ''r2'',
      selectedSquare = Some ''e2'', whiteName = ''raunak'', blackName = ''bob''\<rparr>"
  by (simp add: rejoined_as_reserved_def left_with_selection_eq joinRoom_def trim_names
                on_game_state_def snapshot_of_def updateBoardFromFEN_def stub_load_def
                or_dash_def Let_def)

lemma rejoined_alone_eq:
  "rejoined_alone =
     \<lparr>game = Some start_game, currentUsername = ''alice'', currentRoomId = ''r2'',
      selectedSquare = Some ''e2'', whiteName = ''alice'', blackName = ''-''\<rparr>"
  by (simp add: rejoined_alone_def left_with_selection_eq joinRoom_def trim_names
                on_game_state_def snapshot_of_def updateBoardFromFEN_def stub_load_def
                or_dash_def Let_def)

section \<open>The reserved username (claims C7 and C10)\<close>

lemma reserved_gate:
  assumes "game c = Some g" "toLowerCase (currentUsername c) = ''raunak''"
  shows "handleSquareClick moves c s =
           Inr (clearSelection c,
                [ShowError ''AI is playing automatically. Please wait for your move.''])"
proof -
  from assms(2) have "currentUsername c \<noteq> []" by (auto simp: toLowerCase_def)
  with assms show ?thesis by (simp add: handleSquareClick_def)
qed

lemma reserved_gate_fe:
  assumes "game c = Some g" "toLowerCase (currentUsername c) = ''raunak''"
  shows "handleSquareClick_fe move c s =
           (c, [ShowError ''AI is playing automatically. Please wait for your move.''])"
proof -
  from assms(2) have "currentUsername c \<noteq> []" by (auto simp: toLowerCase_def)
  with assms show ?thesis by (simp add: handleSquareClick_fe_def)
qed

lemma lower_raunak: "toLowerCase ''raunak'' = ''raunak''" "toLowerCase ''Raunak'' = ''raunak''"
  "toLowerCase ''RAUNAK'' = ''raunak''"
  by code_simp+

text \<open>
  Claim C7, as amended. For a username that lowercases to the reserved name, every click
  at every square ends in the notice that moves are automatic: nothing is sent, no square
  becomes selected, and the game and the session are as before. In \<^verbatim>\<open>src/script.js\<close>
  the state after the click is the state before it with the selection cleared, so a
  selection that was there is gone; in \<^verbatim>\<open>src/frontend/script.js\<close> the state after the
  click is the state before it, so a selection that was there stays.
\<close>

theorem reserved_username_click:
  assumes "game c = Some g" "toLowerCase (currentUsername c) = ''raunak''"
  shows "handleSquareClick moves c s =
           Inr (c\<lparr>selectedSquare := None\<rparr>,
                [ShowError ''AI is playing automatically. Please wait for your move.'']) \<and>
         handleSquareClick_fe move c s =
           (c, [ShowError ''AI is playing automatically. Please wait for your move.''])"
  using reserved_gate[OF assms] reserved_gate_fe[OF assms] by (simp add: clearSelection_def)

theorem reserved_username_click_witness:
  "toLowerCase (currentUsername (session ''raunak'' start_game None)) = ''raunak'' \<and>
   handleSquareClick stub_moves (session ''raunak'' start_game None) ''e2'' =
     Inr (session ''raunak'' start_game None,
          [ShowError ''AI is playing automatically. Please wait for your move.'']) \<and>
   handleSquareClick_fe stub_move (session ''raunak'' start_game None) ''e2'' =
     (session ''raunak'' start_game None,
      [ShowError ''AI is playing automatically. Please wait for your move.''])"
  using reserved_username_click[of "session ''raunak'' start_game None" start_game stub_moves "''e2''" stub_move]
  by (simp add: session_simps lower_raunak)

text \<open>
  The claim as it was written allows no selection transition and no change of state. In
  \<^verbatim>\<open>src/script.js\<close> the gate calls \<open>clearSelection\<close>: in the session rejoined under
  the reserved name the selection left over from the earlier match goes from \<open>e2\<close> to
  none at the first click.
\<close>

theorem reserved_username_click_clears_selection:
  "currentUsername rejoined_as_reserved = ''raunak'' \<and>
   selectedSquare rejoined_as_reserved = Some ''e2'' \<and>
   handleSquareClick stub_moves rejoined_as_reserved ''e4'' =
     Inr (rejoined_as_reserved\<lparr>selectedSquare := None\<rparr>,
          [ShowError ''AI is playing automatically. Please wait for your move.'']) \<and>
   rejoined_as_reserved\<lparr>selectedSquare := None\<rparr> \<noteq> rejoined_as_reserved"
  unfolding rejoined_as_reserved_eq
  by (simp add: handleSquareClick_def lower_raunak clearSelection_def)

text \<open>
  In the same session \<^verbatim>\<open>src/frontend/script.js\<close> shows the notice and keeps e2
  selected.
\<close>

lemma frontend_reserved_click_keeps_selection:
  "handleSquareClick_fe stub_move rejoined_as_reserved ''e4'' =
     (rejoined_as_reserved,
      [ShowError ''AI is playing automatically. Please wait for your move.'']) \<and>
   selectedSquare rejoined_as_reserved = Some ''e2''"
  unfolding rejoined_as_reserved_eq
  by (simp add: handleSquareClick_fe_def lower_raunak)

text \<open>
  Claim C10. The comparison with the reserved name is made on the lowercased username in
  both places: any username that lowercases to \<open>raunak\<close> is stopped at the gate of
  \<open>handleSquareClick\<close> (both variants), and the status line of an ongoing two-player
  snapshot reads \<open>AI is calculating your move...\<close> when the player to move and the
  local username both lowercase to it.
\<close>

theorem reserved_identity_case_insensitive:
  assumes u: "toLowerCase u = ''raunak''"
  shows "(game c = Some g \<and> currentUsername c = u \<longrightarrow>
            handleSquareClick moves c s =
              Inr (clearSelection c,
                   [ShowError ''AI is playing automatically. Please wait for your move.'']) \<and>
            handleSquareClick_fe move c s =
              (c, [ShowError ''AI is playing automatically. Please wait for your move.''])) \<and>
         (toLowerCase p = ''raunak'' \<longrightarrow>
            gameStatusText \<lparr>s_fen = f, s_players = Some [Some p, q], s_status = ''ongoing'',
                            s_turn = ''white''\<rparr> u = ''AI is calculating your move...'') \<and>
         (toLowerCase p = ''raunak'' \<and> t \<noteq> ''white'' \<longrightarrow>
            gameStatusText \<lparr>s_fen = f, s_players = Some [q, Some p], s_status = ''ongoing'',
                            s_turn = t\<rparr> u = ''AI is calculating your move...'')"
proof (intro conjI impI)
  assume h: "game c = Some g \<and> currentUsername c = u"
  then have g: "game c = Some g" and r: "toLowerCase (currentUsername c) = ''raunak''"
    using u by simp_all
  show "handleSquareClick moves c s =
          Inr (clearSelection c,
               [ShowError ''AI is playing automatically. Please wait for your move.''])"
    by (rule reserved_gate[OF g r])
  show "handleSquareClick_fe move c s =
          (c, [ShowError ''AI is playing automatically. Please wait for your move.''])"
    by (rule reserved_gate_fe[OF g r])
next
  assume "toLowerCase p = ''raunak''"
  then show "gameStatusText \<lparr>s_fen = f, s_players = Some [Some p, q], s_status = ''ongoing'',
                            s_turn = ''white''\<rparr> u = ''AI is calculating your move...''"
    using u by (simp add: gameStatusText_def lower_opt_def)
next
  assume "toLowerCase p = ''raunak'' \<and> t \<noteq> ''white''"
  then show "gameStatusText \<lparr>s_fen = f, s_players = Some [q, Some p], s_status = ''ongoing'',
                            s_turn = t\<rparr> u = ''AI is calculating your move...''"
    using u by (simp add: gameStatusText_def lower_opt_def)
qed

theorem reserved_identity_case_insensitive_witness:
  "toLowerCase ''Raunak'' = ''raunak'' \<and> toLowerCase ''RAUNAK'' = ''raunak'' \<and>
   handleSquareClick stub_moves (session ''Raunak'' start_game None) ''e2'' =
     Inr (session ''Raunak'' start_game None,
          [ShowError ''AI is playing automatically. Please wait for your move.'']) \<and>
   handleSquareClick_fe stub_move (session ''Raunak'' start_game None) ''e2'' =
     (session ''Raunak'' start_game None,
      [ShowError ''AI is playing automatically. Please wait for your move.'']) \<and>
   gameStatusText \<lparr>s_fen = None, s_players = Some [Some ''RAUNAK'', Some ''bob''], s_status = ''ongoing'',
                   s_turn = ''white''\<rparr> ''Raunak'' = ''AI is calculating your move...'' \<and>
   gameStatusText \<lparr>s_fen = None, s_players = Some [Some ''bob'', Some ''RAUNAK''], s_status = ''ongoing'',
                   s_turn = ''black''\<rparr> ''Raunak'' = ''AI is calculating your move...''"
  using reserved_identity_case_insensitive[OF lower_raunak(2),
      where c = "session ''Raunak'' start_game None" and g = start_game and moves = stub_moves
        and s = "''e2''" and move = stub_move and p = "''RAUNAK''" and q = "Some ''bob''"
        and t = "''black''" and f = None]
  by (simp add: session_simps lower_raunak clearSelection_def)

text \<open>The notice appears in no other case.\<close>

lemma gameStatusText_calculating_iff:
  "gameStatusText d u = ''AI is calculating your move...'' \<longleftrightarrow>
     s_status d = ''ongoing'' \<and>
     (\<exists>p0 p1. s_players d = Some [p0, p1] \<and>
        map_option toLowerCase (if s_turn d = ''white'' then p0 else p1) = Some ''raunak'') \<and>
     toLowerCase u = ''raunak''"
proof (cases "s_status d = ''ongoing''")
  case False
  then show ?thesis by (simp add: gameStatusText_def)
next
  case True
  show ?thesis
  proof (cases "s_players d")
    case None
    with True show ?thesis by (simp add: gameStatusText_def)
  next
    case (Some ps)
    show ?thesis
    proof (cases "length ps = 2")
      case False
      with True Some show ?thesis by (auto simp: gameStatusText_def)
    next
      case l: True
      then obtain p0 p1 where ps: "ps = [p0, p1]"
        by (cases ps; cases "tl ps") auto
      show ?thesis using True Some
        by (auto simp: gameStatusText_def ps lower_opt_def Let_def)
    qed
  qed
qed

section \<open>Clicking the selected square again (claim C8)\<close>

lemma reclick_no_emission:
  assumes "selectedSquare c = Some a" "handleSquareClick moves c a = Inr (c', out)"
  shows "emitted out = []"
  using assms
  unfolding handleSquareClick_def Let_def truthy_square_def
  by (auto simp: emitted_def split: option.splits sum.splits if_splits)

lemma reclick_fe:
  assumes "selectedSquare c = Some a"
  shows "emitted (snd (handleSquareClick_fe move c a)) = [] \<and>
         game (fst (handleSquareClick_fe move c a)) = game c"
  using assms
  unfolding handleSquareClick_fe_def Let_def truthy_square_def
  by (auto simp: emitted_def clearSelection_def selectSquare_def split: option.splits if_splits)

lemma handleSquareClick_fe_gated:
  assumes g: "game c = Some g" and gp: "gates_pass c g"
  shows "handleSquareClick_fe move c s =
     (case truthy_square (selectedSquare c) of
        Some sel \<Rightarrow>
          if sel = s then (clearSelection c, [])
          else
            (case move g sel s of
               Some g' \<Rightarrow> (clearSelection (c\<lparr>game := Some g'\<rparr>),
                           sendMoveToServer_fe (c\<lparr>game := Some g'\<rparr>))
             | None \<Rightarrow> (selectSquare (clearSelection c) s, []))
      | None \<Rightarrow> (selectSquare c s, []))"
proof -
  from gp have u: "currentUsername c \<noteq> []" "toLowerCase (currentUsername c) \<noteq> ''raunak''"
    by (simp_all add: gates_pass_def)
  note ix = gates_pass_index[OF gp]
  show ?thesis
    unfolding handleSquareClick_fe_def
    by (simp add: g u ix Let_def split: option.split)
qed

text \<open>
  Claim C8, as amended. With \<open>a\<close> selected, a click at \<open>a\<close> that gets past the gates
  clears the selection, in both variants, and produces nothing else; and whether or not
  it gets past them, a click at the selected square sends no move.
\<close>

theorem reclick_selected_square:
  assumes g: "game c = Some g" and sel: "selectedSquare c = Some a"
  shows "(gates_pass c g \<and> valid_square a \<and> wf_board (board g) \<longrightarrow>
            handleSquareClick moves c a = Inr (c\<lparr>selectedSquare := None\<rparr>, []) \<and>
            handleSquareClick_fe move c a = (c\<lparr>selectedSquare := None\<rparr>, [])) \<and>
         (\<forall>c' out. handleSquareClick moves c a = Inr (c', out) \<longrightarrow> emitted out = []) \<and>
         emitted (snd (handleSquareClick_fe move c a)) = []"
proof (intro conjI impI allI)
  assume h: "gates_pass c g \<and> valid_square a \<and> wf_board (board g)"
  then have gp: "gates_pass c g" and a: "valid_square a" and b: "wf_board (board g)" by simp_all
  from a have "a \<noteq> []" by (auto simp: valid_square_def)
  then have t: "truthy_square (selectedSquare c) = Some a" by (simp add: sel truthy_square_def)
  show "handleSquareClick moves c a = Inr (c\<lparr>selectedSquare := None\<rparr>, [])"
    unfolding handleSquareClick_gated[OF g gp a b] t by (simp add: clearSelection_def)
  show "handleSquareClick_fe move c a = (c\<lparr>selectedSquare := None\<rparr>, [])"
    unfolding handleSquareClick_fe_gated[OF g gp] t by (simp add: clearSelection_def)
next
  fix c' out
  assume "handleSquareClick moves c a = Inr (c', out)"
  then show "emitted out = []" by (rule reclick_no_emission[OF sel])
next
  show "emitted (snd (handleSquareClick_fe move c a)) = []"
    using reclick_fe[OF sel] by simp
qed

theorem reclick_selected_square_witness:
  "gates_pass (session ''alice'' start_game (Some ''e2'')) start_game \<and>
   valid_square ''e2'' \<and> wf_board (board start_game) \<and>
   handleSquareClick stub_moves (session ''alice'' start_game (Some ''e2'')) ''e2'' =
     Inr (session ''alice'' start_game None, []) \<and>
   handleSquareClick_fe stub_move (session ''alice'' start_game (Some ''e2'')) ''e2'' =
     (session ''alice'' start_game None, [])"
proof -
  have b: "wf_board (board start_game)" by (simp add: start_game_def wf_start_board)
  have gp: "gates_pass (session ''alice'' start_game (Some ''e2'')) start_game"
    by (simp add: gates_pass_def both_seated_def seat_def session_def start_game_def
                  toLowerCase_def lower_char_def)
  have up: "(session ''alice'' start_game (Some ''e2''))\<lparr>selectedSquare := None\<rparr> =
            session ''alice'' start_game None" by (simp add: session_def)
  show ?thesis
    using reclick_selected_square[of "session ''alice'' start_game (Some ''e2'')" start_game
        "''e2''" stub_moves stub_move]
      b gp valid_squares(1)
    by (simp add: session_simps up)
qed

text \<open>
  The claim as it was written speaks of every state with a selection. In the session
  rejoined alone, e2 is still selected and one player is displayed: the handler of
  \<^verbatim>\<open>src/script.js\<close> returns at the \<open>Waiting for opponent\<close> gate, and the selection
  stays.
\<close>

theorem reclick_while_waiting_keeps_selection:
  "selectedSquare rejoined_alone = Some ''e2'' \<and>
   handleSquareClick stub_moves rejoined_alone ''e2'' =
     Inr (rejoined_alone, [ShowError ''Waiting for opponent''])"
  unfolding rejoined_alone_eq
  by (simp add: handleSquareClick_def players_of_def toLowerCase_def lower_char_def)

section \<open>Light and dark squares under both orientations (claim C5)\<close>

lemma file_chars:
  "char_of (97::nat) = CHR ''a''" "char_of (98::nat) = CHR ''b''" "char_of (99::nat) = CHR ''c''"
  "char_of (100::nat) = CHR ''d''" "char_of (101::nat) = CHR ''e''" "char_of (102::nat) = CHR ''f''"
  "char_of (103::nat) = CHR ''g''" "char_of (104::nat) = CHR ''h''"
  by code_simp+

lemma rank_digits:
  "string_of_nat 1 = ''1''" "string_of_nat 2 = ''2''" "string_of_nat 3 = ''3''"
  "string_of_nat 4 = ''4''" "string_of_nat 5 = ''5''" "string_of_nat 6 = ''6''"
  "string_of_nat 7 = ''7''" "string_of_nat 8 = ''8''" "string_of_nat (Suc 0) = ''1''"
  by code_simp+

lemma collect_Inr: "collect (map Inr xs) = Inr xs"
  by (induction xs) simp_all

lemma render_cell_wf:
  assumes "wf_board b" "r < 8" "f < 8"
  shows "render_cell b r f = Inr (grid_cell b r f)"
proof -
  from assms have "length b = 8" "length (b ! r) = 8"
    by (auto simp: wf_board_def list_all_length)
  with assms show ?thesis
    by (simp add: render_cell_def grid_cell_def lookup2_def Let_def)
qed

lemma render_grid_wf:
  assumes "wf_board b"
  shows "render_grid b isBlack =
           Inr (concat (map (\<lambda>r. map (grid_cell b r) (fileIndices isBlack)) (rankIndices isBlack)))"
proof -
  have "concat (map (\<lambda>r. map (render_cell b r) (fileIndices isBlack)) (rankIndices isBlack)) =
        map Inr (concat (map (\<lambda>r. map (grid_cell b r) (fileIndices isBlack)) (rankIndices isBlack)))"
    by (simp add: rankIndices_def fileIndices_def render_cell_wf[OF assms])
  then show ?thesis
    unfolding render_grid_def by (simp only: collect_Inr)
qed

lemma labels_std:
  "map (\<lambda>x. (c_square x, c_light x))
       (concat (map (\<lambda>r. map (grid_cell b r) (fileIndices False)) (rankIndices False))) =
   [(''a8'', True), (''b8'', False), (''c8'', True), (''d8'', False),
    (''e8'', True), (''f8'', False), (''g8'', True), (''h8'', False),
    (''a7'', False), (''b7'', True), (''c7'', False), (''d7'', True),
    (''e7'', False), (''f7'', True), (''g7'', False), (''h7'', True),
    (''a6'', True), (''b6'', False), (''c6'', True), (''d6'', False),
    (''e6'', True), (''f6'', False), (''g6'', True), (''h6'', False),
    (''a5'', False), (''b5'', True), (''c5'', False), (''d5'', True),
    (''e5'', False), (''f5'', True), (''g5'', False), (''h5'', True),
    (''a4'', True), (''b4'', False), (''c4'', True), (''d4'', False),
    (''e4'', True), (''f4'', False), (''g4'', True), (''h4'', False),
    (''a3'', False), (''b3'', True), (''c3'', False), (''d3'', True),
    (''e3'', False), (''f3'', True), (''g3'', False), (''h3'', True),
    (''a2'', True), (''b2'', False), (''c2'', True), (''d2'', False),
    (''e2'', True), (''f2'', False), (''g2'', True), (''h2'', False),
    (''a1'', False), (''b1'', True), (''c1'', False), (''d1'', True),
    (''e1'', False), (''f1'', True), (''g1'', False), (''h1'', True)]"
  by (simp add: rankIndices_def fileIndices_def grid_cell_def file_chars rank_digits)


lemma grid_flip:
  "concat (map (\<lambda>r. map (grid_cell b r) (fileIndices True)) (rankIndices True)) =
   rev (concat (map (\<lambda>r. map (grid_cell b r) (fileIndices False)) (rankIndices False)))"
  by (simp add: rankIndices_def fileIndices_def)

text \<open>
  Claim C5. For every position (an 8 by 8 \<open>game.board()\<close>) the grid of
  \<^verbatim>\<open>src/script.js\<close> rendered for Black is the grid rendered for White in reverse order:
  the same 64 cells, one per algebraic square, at other places of the grid. Both grids
  give every square the same class, and a square is light exactly when the sum of its
  file index and its rank index is even.
\<close>

theorem light_dark_invariant_under_flip:
  assumes "wf_board b"
  shows "\<exists>std flp. render_grid b False = Inr std \<and> render_grid b True = Inr flp \<and>
           flp = rev std \<and> length std = 64 \<and> distinct (map c_square std) \<and>
           (\<forall>sq. classification flp sq = classification std sq) \<and>
           list_all (\<lambda>x. c_light x =
                      even (file_index (c_square x) + (8 - rank_number (c_square x)))) std"
proof -
  let ?std = "concat (map (\<lambda>r. map (grid_cell b r) (fileIndices False)) (rankIndices False))"
  let ?flp = "concat (map (\<lambda>r. map (grid_cell b r) (fileIndices True)) (rankIndices True))"
  let ?lab = "map (\<lambda>x. (c_square x, c_light x)) ?std"
  have flp: "?flp = rev ?std" by (rule grid_flip)
  have len: "length ?std = 64" using arg_cong[OF labels_std[of b], of length] by simp
  have sq: "map c_square ?std = map fst ?lab" by (simp add: comp_def)
  have dist: "distinct (map c_square ?std)" unfolding sq labels_std by simp
  have cls: "classification ?flp sq = classification ?std sq" for sq
  proof -
    have d: "distinct (map fst ?lab)" using dist unfolding sq .
    then have "distinct (map fst (rev ?lab))" by (simp add: rev_map[symmetric])
    from map_of_inject_set[OF this d] have "map_of (rev ?lab) = map_of ?lab" by simp
    then show ?thesis by (simp add: classification_def flp rev_map)
  qed
  have par: "list_all (\<lambda>x. c_light x =
                even (file_index (c_square x) + (8 - rank_number (c_square x)))) ?std"
  proof -
    have "list_all (\<lambda>p. snd p = even (file_index (fst p) + (8 - rank_number (fst p)))) ?lab"
      unfolding labels_std by (simp add: file_index_def rank_number_def)
    then show ?thesis by (simp add: list_all_iff)
  qed
  show ?thesis
    using render_grid_wf[OF assms, of False] render_grid_wf[OF assms, of True] flp len dist cls par
    by (intro exI[of _ ?std] exI[of _ ?flp]) simp
qed

theorem light_dark_invariant_under_flip_witness:
  "wf_board start_board \<and>
   (\<exists>std flp. render_grid start_board False = Inr std \<and> render_grid start_board True = Inr flp \<and>
      flp = rev std \<and> (\<forall>sq. classification flp sq = classification std sq))"
  using light_dark_invariant_under_flip[OF wf_start_board] wf_start_board by blast

text \<open>
  \<^verbatim>\<open>src/frontend/script.js\<close> has one orientation. Its class is a parity of the
  square's indices as well, every cell carries a square of the board, and no session data
  enters the rendering.
\<close>

lemma collect_Inr_D: "collect xs = Inr ys \<Longrightarrow> xs = map Inr ys"
proof (induction xs arbitrary: ys)
  case Nil
  then show ?case by simp
next
  case (Cons x xs)
  then show ?case by (cases x; cases "collect xs") auto
qed

lemma in_grid:
  "y \<in> set (concat (map (\<lambda>r. map (\<lambda>fl. h r fl) fs) rs)) \<Longrightarrow> \<exists>r\<in>set rs. \<exists>fl\<in>set fs. h r fl = y"
  by auto

lemma render_cell_fe_parity:
  assumes "rank < 8" "file < 8" "render_cell_fe b rank file = Inr x"
  shows "valid_square (c_square x) \<and>
         c_light x = even (file_index (c_square x) + (rank_number (c_square x) - 1))"
proof -
  have sn: "string_of_nat (Suc rank) = [char_of (49 + rank)]"
    using assms(1) by (subst string_of_nat.simps) simp
  have x: "c_square x = [char_of (97 + file), char_of (49 + rank)]"
    "c_light x = ((rank + file) mod 2 = 0)"
    using assms(3) by (auto simp: render_cell_fe_def sn split: sum.splits)
  have m: "(97 + file) mod 256 = 97 + file" "(49 + rank) mod 256 = 49 + rank"
    using assms(1,2) by simp_all
  show ?thesis
    using assms(1,2) by (auto simp: x valid_square_def file_index_def rank_number_def m)
qed

lemma renderBoard_fe_classification:
  assumes "renderBoard_fe c = Inr cells"
  shows "list_all (\<lambda>x. valid_square (c_square x) \<and>
            c_light x = even (file_index (c_square x) + (rank_number (c_square x) - 1))) cells"
proof -
  from assms obtain g where g: "game c = Some g"
    by (cases "game c") (simp_all add: renderBoard_fe_def)
  let ?xs = "concat (map (\<lambda>rank. map (\<lambda>file. render_cell_fe (board g) rank file)
                                     [0, 1, 2, 3, 4, 5, 6, 7])
                         [7, 6, 5, 4, 3, 2, 1, 0])"
  from assms g have "collect ?xs = Inr cells" by (simp add: renderBoard_fe_def)
  then have eq: "?xs = map Inr cells" by (rule collect_Inr_D)
  have "\<exists>rk fl. rk < 8 \<and> fl < 8 \<and> render_cell_fe (board g) rk fl = Inr x"
    if "x \<in> set cells" for x
  proof -
    from that have "Inr x \<in> set (map Inr cells)" by simp
    then have "Inr x \<in> set ?xs" by (simp only: eq)
    from in_grid[OF this]
    obtain rk fl where rf: "rk \<in> set [7, 6, 5, 4, 3, 2, 1, 0::nat]"
      "fl \<in> set [0, 1, 2, 3, 4, 5, 6, 7::nat]" "render_cell_fe (board g) rk fl = Inr x"
      by metis
    then have "rk < 8" "fl < 8" by auto
    with rf(3) show ?thesis by blast
  qed
  then show ?thesis
    using render_cell_fe_parity by (fastforce simp: list_all_iff)
qed

section \<open>Board orientation (claim C4)\<close>

text \<open>
  In \<^verbatim>\<open>src/script.js\<close> the orientation is computed from the displayed names at every
  rendering: the grid is reversed, ranks and files, exactly for the client seated as Black
  in a match with both seats taken; every other client sees a8 first.
\<close>

lemma isPlayerBlack_seat: "isPlayerBlack c \<longleftrightarrow> both_seated c \<and> seat c = Some Black"
proof (cases "both_seated c")
  case False
  then show ?thesis by (simp add: isPlayerBlack_def length_players_of Let_def)
next
  case True
  have p: "players_of c = [whiteName c, blackName c]" by (rule players_of_seated[OF True])
  show ?thesis
  proof (cases "currentUsername c = whiteName c")
    case w: True
    with True show ?thesis
      by (simp add: isPlayerBlack_def p Let_def seat_def both_seated_def)
  next
    case False
    with True show ?thesis
      by (simp add: isPlayerBlack_def p Let_def seat_def both_seated_def)
  qed
qed

lemma renderBoard_orientation:
  assumes g: "game c = Some g" and b: "wf_board (board g)"
  shows "\<exists>std. render_grid (board g) False = Inr std \<and>
           renderBoard c = Inr (if both_seated c \<and> seat c = Some Black then rev std else std) \<and>
           take 3 (map c_square std) = [''a8'', ''b8'', ''c8''] \<and>
           take 3 (map c_square (rev std)) = [''h1'', ''g1'', ''f1'']"
proof -
  let ?std = "concat (map (\<lambda>r. map (grid_cell (board g) r) (fileIndices False)) (rankIndices False))"
  have sq: "map c_square ?std = map fst (map (\<lambda>x. (c_square x, c_light x)) ?std)"
    by (simp add: comp_def)
  have l1: "take 3 (map c_square ?std) = [''a8'', ''b8'', ''c8'']"
    unfolding sq labels_std by simp
  have l2: "take 3 (map c_square (rev ?std)) = [''h1'', ''g1'', ''f1'']"
    unfolding rev_map[symmetric] sq labels_std by simp
  have r: "renderBoard c = render_grid (board g) (isPlayerBlack c)"
    by (simp add: renderBoard_def g)
  show ?thesis
  proof (cases "isPlayerBlack c")
    case True
    with render_grid_wf[OF b, of False] render_grid_wf[OF b, of True] l1 l2 show ?thesis
      by (intro exI[of _ ?std]) (simp add: r isPlayerBlack_seat[symmetric] grid_flip)
  next
    case False
    with render_grid_wf[OF b, of False] l1 l2 show ?thesis
      by (intro exI[of _ ?std]) (simp add: r isPlayerBlack_seat[symmetric])
  qed
qed

text \<open>
  The \<open>game_state\<close> handler renders before it sets the displayed names: the first
  snapshot that seats bob as Black is rendered for the names shown until then, a8 first.
\<close>

lemma first_snapshot_renders_standard:
  "\<exists>r. on_game_state stub_load start_game joined_bob (snapshot_of [Some ''alice'', Some ''bob'']) =
          (session ''bob'' start_game None, Some r, ''Game in progress'') \<and>
        take 3 (square_labels r) = [''a8'', ''b8'', ''c8''] \<and>
        seat (session ''bob'' start_game None) = Some Black"
proof -
  have b: "wf_board (board start_game)" by (simp add: start_game_def wf_start_board)
  have nb: "\<not> (both_seated joined_bob \<and> seat joined_bob = Some Black)"
    by (simp add: both_seated_def joined_bob_def)
  obtain std where r: "renderBoard joined_bob = Inr std"
    and l: "take 3 (map c_square std) = [''a8'', ''b8'', ''c8'']"
    using renderBoard_orientation[OF _ b, of joined_bob] nb by (auto simp: joined_bob_def)
  have c: "joined_bob\<lparr>game := Some start_game\<rparr> = joined_bob" by (simp add: joined_bob_def)
  have ld: "stub_load start_game (fen start_game) = start_game" by (simp add: stub_load_def)
  have g: "game joined_bob = Some start_game" by (simp add: joined_bob_def)
  have ne: "fen start_game \<noteq> []" by (simp add: start_game_def)
  have upd: "updateBoardFromFEN stub_load joined_bob (fen start_game) =
               (joined_bob, Some (renderBoard joined_bob))"
    by (simp add: updateBoardFromFEN_def g ld c Let_def)
  have nm: "joined_bob\<lparr>whiteName := ''alice'', blackName := ''bob''\<rparr> =
            session ''bob'' start_game None" by (simp add: joined_bob_def session_def)
  have u: "currentUsername joined_bob = ''bob''" by (simp add: joined_bob_def)
  have st: "gameStatusText (snapshot_of [Some ''alice'', Some ''bob'']) ''bob'' = ''Game in progress''"
    by (simp add: gameStatusText_def snapshot_of_def lower_opt_def toLowerCase_def lower_char_def)
  have "on_game_state stub_load start_game joined_bob (snapshot_of [Some ''alice'', Some ''bob'']) =
          (session ''bob'' start_game None, Some (renderBoard joined_bob), ''Game in progress'')"
    unfolding on_game_state_def st[unfolded snapshot_of_def] u snapshot_of_def
    by (simp add: g ne upd or_dash_def nm Let_def)
  then show ?thesis
    using r l by (simp add: square_labels_def seat_def session_def)
qed

lemma renderBoard_fe_seat_free:
  "game c = game c' \<Longrightarrow> renderBoard_fe c = renderBoard_fe c'"
  by (simp add: renderBoard_fe_def)

text \<open>
  \<^verbatim>\<open>src/frontend/script.js\<close> renders one grid for every client: for bob, seated as
  Black, the grid starts at a8, as it does for alice, where \<^verbatim>\<open>src/script.js\<close> starts
  his grid at h1.
\<close>

lemma frontend_render_ignores_seat:
  "seat (session ''bob'' start_game None) = Some Black \<and>
   both_seated (session ''bob'' start_game None) \<and>
   renderBoard_fe (session ''bob'' start_game None) =
     renderBoard_fe (session ''alice'' start_game None) \<and>
   take 3 (square_labels (renderBoard_fe (session ''bob'' start_game None))) =
     [''a8'', ''b8'', ''c8''] \<and>
   take 3 (square_labels (renderBoard (session ''bob'' start_game None))) =
     [''h1'', ''g1'', ''f1'']"
proof -
  let ?c = "session ''bob'' start_game None"
  have st: "seat ?c = Some Black" "both_seated ?c"
    by (simp_all add: seat_def both_seated_def session_def)
  have same: "renderBoard_fe ?c = renderBoard_fe (session ''alice'' start_game None)"
    by (rule renderBoard_fe_seat_free) (simp add: session_simps)
  have fe: "take 3 (square_labels (renderBoard_fe ?c)) = [''a8'', ''b8'', ''c8'']"
    by (simp add: renderBoard_fe_def render_cell_fe_def lookup2_def session_def start_game_def
                  start_board_def back_row_def empty_row_def pc_def square_labels_def
                  file_chars rank_digits)
  have b: "wf_board (board start_game)" by (simp add: start_game_def wf_start_board)
  obtain std where "renderBoard ?c = Inr (rev std)"
    and "take 3 (map c_square (rev std)) = [''h1'', ''g1'', ''f1'']"
    using renderBoard_orientation[OF _ b, of ?c] st by (auto simp: session_simps)
  then have root: "take 3 (square_labels (renderBoard ?c)) = [''h1'', ''g1'', ''f1'']"
    by (simp add: square_labels_def)
  show ?thesis using st same fe root by simp
qed

text \<open>
  Claim C4 at the inputs where the code departs from it. bob has joined, and the first
  snapshot seats him as Black: the grid that the \<open>game_state\<close> handler of
  \<^verbatim>\<open>src/script.js\<close> renders starts at a8, unflipped, and stays until the next
  rendering. In \<^verbatim>\<open>src/frontend/script.js\<close> every rendering for bob starts at a8. A
  rendering of \<^verbatim>\<open>src/script.js\<close> made once the names are displayed starts at h1.
\<close>

theorem black_seat_rendered_unflipped:
  "fst (on_game_state stub_load start_game joined_bob (snapshot_of [Some ''alice'', Some ''bob''])) =
     session ''bob'' start_game None \<and>
   seat (session ''bob'' start_game None) = Some Black \<and>
   take 3 (rendered_labels (fst (snd (on_game_state stub_load start_game joined_bob
                                        (snapshot_of [Some ''alice'', Some ''bob''])))))
     = [''a8'', ''b8'', ''c8''] \<and>
   take 3 (square_labels (renderBoard_fe (session ''bob'' start_game None))) =
     [''a8'', ''b8'', ''c8''] \<and>
   take 3 (square_labels (renderBoard (session ''bob'' start_game None))) =
     [''h1'', ''g1'', ''f1'']"
proof -
  obtain r where
    "on_game_state stub_load start_game joined_bob (snapshot_of [Some ''alice'', Some ''bob'']) =
       (session ''bob'' start_game None, Some r, ''Game in progress'')"
    and "take 3 (square_labels r) = [''a8'', ''b8'', ''c8'']"
    using first_snapshot_renders_standard by blast
  moreover have "seat (session ''bob'' start_game None) = Some Black"
    using frontend_render_ignores_seat by blast
  moreover have "take 3 (square_labels (renderBoard_fe (session ''bob'' start_game None))) =
      [''a8'', ''b8'', ''c8'']"
    using frontend_render_ignores_seat by blast
  moreover have "take 3 (square_labels (renderBoard (session ''bob'' start_game None))) =
      [''h1'', ''g1'', ''f1'']"
    using frontend_render_ignores_seat by blast
  ultimately show ?thesis by (simp add: rendered_labels_def)
qed

section \<open>The quick-match room (claim C9)\<close>

text \<open>
  \<open>getRandomRoom\<close> never throws, whatever the outcome of the query.
\<close>

lemma floor_random_lt:
  fixes r :: real
  assumes "0 \<le> r" "r < 1" "0 < n"
  shows "0 \<le> \<lfloor>r * real n\<rfloor> \<and> \<lfloor>r * real n\<rfloor> < int n"
proof -
  have "r * real n < real n" using assms by simp
  then have "\<lfloor>r * real n\<rfloor> < int n" by (simp add: floor_less_iff)
  moreover have "0 \<le> \<lfloor>r * real n\<rfloor>" using assms by simp
  ultimately show ?thesis by simp
qed

lemma fallback_room_pattern:
  assumes "0 \<le> r" "r < 1"
  shows "fallback_pattern (fallback_room r)"
proof -
  have "r * 10000 < 10000" using assms by simp
  then have "\<lfloor>r * 10000\<rfloor> < 10000" by (simp add: floor_less_iff)
  then have "nat \<lfloor>r * 10000\<rfloor> \<le> 9999" by linarith
  then show ?thesis unfolding fallback_pattern_def fallback_room_def by blast
qed

lemma getRandomRoom_never_throws: "\<exists>v. getRandomRoom coerce q rnd = Inr v"
proof -
  obtain res n where t: "try_rooms coerce q rnd = (res, n)" by (cases "try_rooms coerce q rnd")
  show ?thesis by (cases res) (simp_all add: getRandomRoom_def t)
qed

text \<open>
  A failed fetch, a body that does not parse, a \<open>null\<close> body and a body without rooms
  are answered with the fallback; a body of the listing's shape with the \<open>room_id\<close> of
  the entry at index \<open>floor(rnd 0 * length)\<close>, one of the listed rooms, or with the
  fallback when its list is empty.
\<close>

lemma getRandomRoom_query_failed:
  "getRandomRoom coerce FetchRejected rnd = Inr (Some (JStr (fallback_room (rnd 0))))"
  "getRandomRoom coerce JsonRejected rnd = Inr (Some (JStr (fallback_room (rnd 0))))"
  "getRandomRoom coerce (Parsed JNull) rnd = Inr (Some (JStr (fallback_room (rnd 0))))"
  by (simp_all add: getRandomRoom_def try_rooms_def get_prop_def)

lemma getRandomRoom_no_rooms:
  assumes "get_prop (Some data) ''rooms'' = Inr rooms" "rooms_available coerce rooms = None"
  shows "getRandomRoom coerce (Parsed data) rnd = Inr (Some (JStr (fallback_room (rnd 0))))"
  using assms by (simp add: getRandomRoom_def try_rooms_def)

lemma rooms_available_empty:
  "rooms_available coerce None = None" "rooms_available coerce (Some (JArr [])) = None"
  "rooms_available coerce (Some JNull) = None"
  by (simp_all add: rooms_available_def truthy_def get_prop_def to_number_def)

lemma list_all2_nth_room:
  assumes "list_all2 room_entry es ids" "k < length ids"
  shows "\<exists>kv. es ! k = JObj kv \<and> own_prop kv ''room_id'' = Some (JStr (ids ! k))"
proof -
  from assms have "room_entry (es ! k) (ids ! k)" by (simp add: list_all2_conv_all_nth)
  then show ?thesis by (cases "es ! k") (simp_all add: room_entry_def)
qed

lemma getRandomRoom_listing:
  assumes r: "0 \<le> rnd 0" "rnd 0 < 1" and l: "listing data ids"
  shows "\<exists>s. getRandomRoom coerce (Parsed data) rnd = Inr (Some (JStr s)) \<and>
           (if ids = [] then fallback_pattern s
            else s = ids ! nat \<lfloor>rnd 0 * real (length ids)\<rfloor> \<and> s \<in> set ids)"
proof -
  from l obtain kv where d: "data = JObj kv" by (cases data) (simp_all add: listing_def)
  with l have c: "case own_prop kv ''rooms'' of Some (JArr es) \<Rightarrow> list_all2 room_entry es ids
                  | _ \<Rightarrow> False" by (simp add: listing_def)
  then obtain v where v: "own_prop kv ''rooms'' = Some v"
    by (cases "own_prop kv ''rooms''") simp_all
  with c obtain es where ve: "v = JArr es" and es: "list_all2 room_entry es ids"
    by (cases v) simp_all
  have ro: "own_prop kv ''rooms'' = Some (JArr es)" by (simp add: v ve)
  have len: "length es = length ids" using es by (rule list_all2_lengthD)
  have gp: "get_prop (Some data) ''rooms'' = Inr (Some (JArr es))" by (simp add: d get_prop_def ro)
  show ?thesis
  proof (cases "ids = []")
    case True
    then have "es = []" using len by simp
    then have "getRandomRoom coerce (Parsed data) rnd = Inr (Some (JStr (fallback_room (rnd 0))))"
      using getRandomRoom_no_rooms[OF gp] by (simp add: rooms_available_empty)
    with True fallback_room_pattern[OF r] show ?thesis by simp
  next
    case False
    then have pos: "0 < length ids" by simp
    let ?k = "\<lfloor>rnd 0 * real (length ids)\<rfloor>"
    have k: "0 \<le> ?k \<and> ?k < int (length ids)" by (rule floor_random_lt[OF r pos])
    then have kn: "nat ?k < length ids" by linarith
    have av: "rooms_available coerce (Some (JArr es)) = Some (real (length ids))"
      using pos by (simp add: rooms_available_def truthy_def get_prop_def to_number_def len)
    have el: "elem (Some (JArr es)) ?k = Inr (Some (es ! nat ?k))"
      using k by (simp add: elem_def len)
    obtain ekv where e: "es ! nat ?k = JObj ekv"
      and id: "own_prop ekv ''room_id'' = Some (JStr (ids ! nat ?k))"
      using list_all2_nth_room[OF es kn] by blast
    have rid: "get_prop (Some (es ! nat ?k)) ''room_id'' = Inr (Some (JStr (ids ! nat ?k)))"
      by (simp add: e get_prop_def id)
    have "getRandomRoom coerce (Parsed data) rnd = Inr (Some (JStr (ids ! nat ?k)))"
      by (simp add: getRandomRoom_def try_rooms_def gp av el rid)
    with False kn show ?thesis by simp
  qed
qed

lemma string_of_5000: "string_of_nat 5000 = ''5000''"
  by code_simp

lemma fallback_half: "fallback_room (1 / 2) = ''room5000''"
  by (simp add: fallback_room_def string_of_5000)

text \<open>
  Claim C9 at the inputs where the code departs from it. The body \<open>{"rooms": [{}]}\<close>
  lists one entry without a \<open>room_id\<close>, and the body \<open>{"rooms": "ab"}\<close> has a string
  for the list: both pass the test \<open>data.rooms && data.rooms.length > 0\<close>, and the
  function returns \<open>undefined\<close>, neither a listed room nor the fallback. A \<open>null\<close>
  entry, an empty list and a failed fetch are answered with the fallback, and a listing
  of the expected shape with one of its rooms.
\<close>

theorem malformed_listing_returns_undefined:
  "getRandomRoom no_coercion (Parsed (JObj [(''rooms'', JArr [JObj []])])) half = Inr None \<and>
   getRandomRoom no_coercion (Parsed (JObj [(''rooms'', JStr ''ab'')])) half = Inr None \<and>
   getRandomRoom no_coercion (Parsed (JObj [(''rooms'', JArr [JNull])])) half =
     Inr (Some (JStr ''room5000'')) \<and>
   getRandomRoom no_coercion (Parsed (JObj [(''rooms'', JArr [])])) half =
     Inr (Some (JStr ''room5000'')) \<and>
   getRandomRoom no_coercion FetchRejected half = Inr (Some (JStr ''room5000'')) \<and>
   getRandomRoom no_coercion
     (Parsed (JObj [(''rooms'', JArr [JObj [(''room_id'', JStr ''r1'')],
                                       JObj [(''room_id'', JStr ''lobby7'')]])])) half =
     Inr (Some (JStr ''lobby7''))"
  by (simp add: getRandomRoom_def try_rooms_def get_prop_def own_prop_def rooms_available_def
                truthy_def to_number_def elem_def fallback_half half_def)

section \<open>Clicks and the position (claim C1)\<close>

text \<open>
  In \<^verbatim>\<open>src/script.js\<close> a click changes nothing but the selection, so any run of clicks
  leaves the game, and with it the position, as it was.
\<close>

lemma click_frame: "\<exists>sel. click moves c s = c\<lparr>selectedSquare := sel\<rparr>"
proof (cases "handleSquareClick moves c s")
  case (Inl e)
  then have "click moves c s = c\<lparr>selectedSquare := selectedSquare c\<rparr>" by (simp add: click_def)
  then show ?thesis by blast
next
  case (Inr r)
  obtain c' out where r: "r = (c', out)" by (cases r)
  from handleSquareClick_frame[OF Inr[unfolded r]] show ?thesis
    by (simp add: click_def Inr r)
qed

lemma clicks_frame: "\<exists>sel. clicks moves c squares = c\<lparr>selectedSquare := sel\<rparr>"
proof (induction squares arbitrary: c)
  case Nil
  have "clicks moves c [] = c\<lparr>selectedSquare := selectedSquare c\<rparr>" by (simp add: clicks_def)
  then show ?case by blast
next
  case (Cons s squares)
  obtain sel where 1: "click moves c s = c\<lparr>selectedSquare := sel\<rparr>"
    using click_frame by blast
  obtain sel' where 2: "clicks moves (c\<lparr>selectedSquare := sel\<rparr>) squares =
      c\<lparr>selectedSquare := sel, selectedSquare := sel'\<rparr>" using Cons.IH by blast
  have "clicks moves c (s # squares) = c\<lparr>selectedSquare := sel'\<rparr>"
    using 1 2 by (simp add: clicks_def)
  then show ?case by blast
qed

lemma clicks_keep_position: "game (clicks moves c squares) = game c"
proof -
  obtain sel where "clicks moves c squares = c\<lparr>selectedSquare := sel\<rparr>"
    using clicks_frame by blast
  then show ?thesis by simp
qed

text \<open>
  Claim C1 at the input where the code departs from it. In \<^verbatim>\<open>src/frontend/script.js\<close>
  the click on a legal destination calls \<open>game.move\<close>: after White's clicks on e2 and e4
  the local game is the position after 1. e4, with Black to move, before any event of the
  server. The same clicks in \<^verbatim>\<open>src/script.js\<close> leave the starting position.
\<close>

theorem frontend_click_advances_position:
  "handleSquareClick_fe stub_move (session ''alice'' start_game (Some ''e2'')) ''e4'' =
     (session ''alice'' e4_game None,
      [Emit \<lparr>pm_username = ''alice'', pm_room_id = ''r1'', pm_fen = fen e4_game,
              pm_move_uci = ''e2e4''\<rparr>]) \<and>
   game (clicks_fe stub_move (session ''alice'' start_game None) [''e2'', ''e4'']) = Some e4_game \<and>
   game (session ''alice'' start_game None) = Some start_game \<and>
   turn e4_game \<noteq> turn start_game \<and>
   game (clicks stub_moves (session ''alice'' start_game None) [''e2'', ''e4'']) = Some start_game"
proof -
  have 1: "handleSquareClick_fe stub_move (session ''alice'' start_game None) ''e2'' =
             (session ''alice'' start_game (Some ''e2''), [])"
    by (simp add: handleSquareClick_fe_def session_def start_game_def players_of_def
                  toLowerCase_def lower_char_def truthy_square_def selectSquare_def
                  clearSelection_def)
  have 2: "handleSquareClick_fe stub_move (session ''alice'' start_game (Some ''e2'')) ''e4'' =
     (session ''alice'' e4_game None,
      [Emit \<lparr>pm_username = ''alice'', pm_room_id = ''r1'', pm_fen = fen e4_game,
              pm_move_uci = ''e2e4''\<rparr>])"
    by (simp add: handleSquareClick_fe_def sendMoveToServer_fe_def session_def start_game_def
                  players_of_def toLowerCase_def lower_char_def truthy_square_def stub_move_def
                  clearSelection_def e4_game_def)
  show ?thesis
    using 1 2 by (simp add: clicks_fe_def session_simps clicks_keep_position)
       (simp add: e4_game_def start_game_def)
qed

section \<open>A client without a seat (claim C2)\<close>

text \<open>
  Claim C2 at the input where the code departs from it. carol is neither of the two
  displayed players. With Black to move her click on e7 selects the pawn, and her click
  on e5 then sends the move e7e5 under her name: the handler takes every client that is
  not at index 0 for Black. \<^verbatim>\<open>src/frontend/script.js\<close> selects for her as well.
\<close>

theorem spectator_click_selects_and_emits:
  "seat (session ''carol'' e4_game None) = None \<and>
   handleSquareClick stub_moves (session ''carol'' e4_game None) ''e7'' =
     Inr (session ''carol'' e4_game (Some ''e7''), []) \<and>
   handleSquareClick stub_moves (session ''carol'' e4_game (Some ''e7'')) ''e5'' =
     Inr (session ''carol'' e4_game None,
          [Emit \<lparr>pm_username = ''carol'', pm_room_id = ''r1'', pm_fen = fen e4_game,
                  pm_move_uci = ''e7e5''\<rparr>]) \<and>
   handleSquareClick_fe stub_move (session ''carol'' e4_game None) ''e7'' =
     (session ''carol'' e4_game (Some ''e7''), [])"
  by (simp add: handleSquareClick_def handleSquareClick_fe_def sendMoveToServer_def session_def
                e4_game_def seat_def players_of_def toLowerCase_def lower_char_def
                truthy_square_def stub_moves_def stub_move_def squareRank_def squareFile_def
                parseInt1_def charCodeAt0_def lookup2_def e4_board_def back_row_def
                empty_row_def pc_def clearSelection_def selectSquare_def own_piece_def)

end
